theory Spec2Isabelle
  imports Complex_Main "HOL-Library.Word" "HOL-Library.Sublist"
begin

section \<open>The Go library functions main.go calls\<close>

text \<open>
  Go strings are byte sequences: \<open>string\<close> (a list of 8-bit characters) models them
  byte for byte. \<open>uint64\<close> is a 64-bit word; Go's \<open>int\<close> (64 bits on Linux/amd64) is
  an \<open>int\<close>: the program does no arithmetic on it, and every value it stores comes from
  a length or from a range-checked parse. \<open>float64\<close> is a type parameter \<open>'f\<close> with
  the operations the program applies to it (record \<open>float64\<close> below), so no theorem
  depends on how floating point rounds.
\<close>

type_synonym uint64 = "64 word"

datatype error =
    OSError string
  | ErrSyntax
  | ErrRange
  | VmRSSNotFound
  | ZeroPeriod
  | UnsupportedValue
  | UnmarshalTypeError

definition tab :: char where
  "tab = CHR 0x09"

definition newline :: char where
  "newline = CHR 0x0A"

subsection \<open>Unicode white space, on UTF-8 bytes\<close>

text \<open>
  \<open>unicode.IsSpace\<close> and the scanner's \<open>isSpace\<close> of package fmt accept the same code
  points: U+0009..U+000D, U+0020, U+0085, U+00A0, U+1680, U+2000..U+200A, U+2028,
  U+2029, U+202F, U+205F, U+3000. \<open>space_runes\<close> lists their UTF-8 encodings. No
  encoding starts with a continuation byte (0x80..0xBF), and Go steps over an invalid
  byte one byte at a time, so a white-space rune stands at a position exactly when one of
  these byte strings does.
\<close>

definition space_runes :: "string list" where
  "space_runes =
    [[CHR 0x09], [CHR 0x0A], [CHR 0x0B], [CHR 0x0C], [CHR 0x0D], [CHR 0x20],
     [CHR 0xC2, CHR 0x85], [CHR 0xC2, CHR 0xA0],
     [CHR 0xE1, CHR 0x9A, CHR 0x80],
     [CHR 0xE2, CHR 0x80, CHR 0x80], [CHR 0xE2, CHR 0x80, CHR 0x81],
     [CHR 0xE2, CHR 0x80, CHR 0x82], [CHR 0xE2, CHR 0x80, CHR 0x83],
     [CHR 0xE2, CHR 0x80, CHR 0x84], [CHR 0xE2, CHR 0x80, CHR 0x85],
     [CHR 0xE2, CHR 0x80, CHR 0x86], [CHR 0xE2, CHR 0x80, CHR 0x87],
     [CHR 0xE2, CHR 0x80, CHR 0x88], [CHR 0xE2, CHR 0x80, CHR 0x89],
     [CHR 0xE2, CHR 0x80, CHR 0x8A],
     [CHR 0xE2, CHR 0x80, CHR 0xA8], [CHR 0xE2, CHR 0x80, CHR 0xA9],
     [CHR 0xE2, CHR 0x80, CHR 0xAF], [CHR 0xE2, CHR 0x81, CHR 0x9F],
     [CHR 0xE3, CHR 0x80, CHR 0x80]]"

text \<open>The rest of the input after one leading white-space rune, if there is one.\<close>

definition leading_space :: "string \<Rightarrow> string option" where
  "leading_space s = map_option (\<lambda>p. drop (length p) s) (find (\<lambda>p. prefix p s) space_runes)"

text \<open>The input without one trailing white-space rune, if there is one.\<close>

definition trailing_space :: "string \<Rightarrow> string option" where
  "trailing_space s =
     map_option (\<lambda>p. take (length s - length p) s) (find (\<lambda>p. suffix p s) space_runes)"

lemma find_space_rune_length:
  "find P space_runes = Some p \<Longrightarrow> 0 < length p"
proof -
  assume "find P space_runes = Some p"
  then have "p \<in> set space_runes"
    by (auto simp: find_Some_iff)
  then show ?thesis
    by (auto simp: space_runes_def)
qed

lemma leading_space_shorter:
  assumes "leading_space s = Some r"
  shows "length r < length s"
proof -
  from assms obtain p where p: "find (\<lambda>p. prefix p s) space_runes = Some p"
    and r: "r = drop (length p) s"
    by (auto simp: leading_space_def)
  from p have "prefix p s"
    by (auto simp: find_Some_iff)
  then have "length p \<le> length s"
    by (rule prefix_length_le)
  moreover have "0 < length p"
    using p by (rule find_space_rune_length)
  ultimately show ?thesis
    using r by (cases p) auto
qed

lemma trailing_space_shorter:
  assumes "trailing_space s = Some r"
  shows "length r < length s"
proof -
  from assms obtain p where p: "find (\<lambda>p. suffix p s) space_runes = Some p"
    and r: "r = take (length s - length p) s"
    by (auto simp: trailing_space_def)
  from p have "suffix p s"
    by (auto simp: find_Some_iff)
  then have "length p \<le> length s"
    by (rule suffix_length_le)
  moreover have "0 < length p"
    using p by (rule find_space_rune_length)
  ultimately show ?thesis
    using r by (cases p) auto
qed

subsection \<open>Package strings\<close>

text \<open>\<open>strings.TrimSpace\<close>: leading white space goes first, then trailing white space.\<close>

function trimLeftSpace :: "string \<Rightarrow> string" where
  "trimLeftSpace s = (case leading_space s of None \<Rightarrow> s | Some r \<Rightarrow> trimLeftSpace r)"
  by pat_completeness auto
termination
  by (relation "measure length") (auto dest: leading_space_shorter)

function trimRightSpace :: "string \<Rightarrow> string" where
  "trimRightSpace s = (case trailing_space s of None \<Rightarrow> s | Some r \<Rightarrow> trimRightSpace r)"
  by pat_completeness auto
termination
  by (relation "measure length") (auto dest: trailing_space_shorter)

declare trimLeftSpace.simps [simp del] trimRightSpace.simps [simp del]

definition TrimSpace :: "string \<Rightarrow> string" where
  "TrimSpace s = trimRightSpace (trimLeftSpace s)"

text \<open>
  \<open>strings.Fields\<close>: the maximal runs of bytes between white-space runes, in order.
  \<open>cur\<close> is the field being read.
\<close>

function Fields_from :: "string \<Rightarrow> string \<Rightarrow> string list" where
  "Fields_from cur s =
     (if s = [] then (if cur = [] then [] else [cur])
      else case leading_space s of
          Some r \<Rightarrow> (if cur = [] then [] else [cur]) @ Fields_from [] r
        | None \<Rightarrow> Fields_from (cur @ [hd s]) (tl s))"
  by pat_completeness auto
termination
  by (relation "measure (\<lambda>(cur, s). length s)") (auto dest: leading_space_shorter)

declare Fields_from.simps [simp del]

definition Fields :: "string \<Rightarrow> string list" where
  "Fields s = Fields_from [] s"

text \<open>\<open>strings.Split(s, sep)\<close> for a separator of one byte: never the empty list.\<close>

fun Split :: "string \<Rightarrow> char \<Rightarrow> string list" where
  "Split [] sep = [[]]"
| "Split (c # cs) sep =
     (if c = sep then [] # Split cs sep
      else (case Split cs sep of [] \<Rightarrow> [[c]] | l # ls \<Rightarrow> (c # l) # ls))"

text \<open>\<open>strings.HasPrefix(s, p)\<close>, written in the order of Go's arguments.\<close>

definition HasPrefix :: "string \<Rightarrow> string \<Rightarrow> bool" where
  "HasPrefix s p = prefix p s"

text \<open>\<open>strings.Cut(s, sep)\<close> for a separator of one byte; \<open>None\<close> is \<open>found = false\<close>.\<close>

definition Cut :: "string \<Rightarrow> char \<Rightarrow> (string \<times> string) option" where
  "Cut s sep =
     (if sep \<in> set s then Some (takeWhile (\<lambda>c. c \<noteq> sep) s, tl (dropWhile (\<lambda>c. c \<noteq> sep) s))
      else None)"

subsection \<open>Package strconv\<close>

definition is_digit :: "char \<Rightarrow> bool" where
  "is_digit c = (48 \<le> (of_char c :: nat) \<and> (of_char c :: nat) \<le> 57)"

definition digit_val :: "char \<Rightarrow> nat" where
  "digit_val c = of_char c - 48"

definition maxUint64 :: uint64 where
  "maxUint64 = - 1"

text \<open>
  The loop of \<open>strconv.ParseUint(s, 10, 64)\<close> over the bytes of \<open>s\<close>, \<open>n\<close> the value
  read so far. In base 10 every byte that is not a decimal digit is a syntax error
  (underscores count only in base 0, letters are digits of 10 and more). \<open>cutoff\<close> is
  \<open>maxUint64/10 + 1\<close>; \<open>n1 < n\<close> detects the wrap-around of \<open>n + d\<close>.
\<close>

definition cutoff :: uint64 where
  "cutoff = maxUint64 div 10 + 1"

fun ParseUint_loop :: "uint64 \<Rightarrow> string \<Rightarrow> error + uint64" where
  "ParseUint_loop n [] = Inr n"
| "ParseUint_loop n (c # cs) =
     (if \<not> is_digit c then Inl ErrSyntax
      else if cutoff \<le> n then Inl ErrRange
      else let n1 = n * 10 + of_nat (digit_val c)
           in if n1 < n * 10 \<or> maxUint64 < n1 then Inl ErrRange
              else ParseUint_loop n1 cs)"

definition ParseUint :: "string \<Rightarrow> error + uint64" where
  "ParseUint s = (if s = [] then Inl ErrSyntax else ParseUint_loop 0 s)"

text \<open>
  \<open>strconv.ParseInt(s, 10, 64)\<close>: an optional sign, then \<open>ParseUint\<close>; a range error of
  \<open>ParseUint\<close> (which returns \<open>maxUint64\<close> with it) falls through to the range checks
  against \<open>1 << 63\<close>.
\<close>

definition ParseInt :: "string \<Rightarrow> error + int" where
  "ParseInt s0 =
     (if s0 = [] then Inl ErrSyntax
      else
        let neg = (hd s0 = CHR ''-'');
            s = (if hd s0 = CHR ''+'' \<or> hd s0 = CHR ''-'' then tl s0 else s0)
        in case ParseUint s of
             Inl ErrSyntax \<Rightarrow> Inl ErrSyntax
           | r \<Rightarrow>
               let un = (case r of Inr u \<Rightarrow> u | Inl _ \<Rightarrow> maxUint64)
               in if \<not> neg \<and> push_bit 63 1 \<le> un then Inl ErrRange
                  else if neg \<and> push_bit 63 1 < un then Inl ErrRange
                  else Inr (if neg then - uint un else uint un))"

text \<open>\<open>strconv.Itoa\<close> and the verb \<open>%d\<close>: decimal digits, a minus sign for a negative.\<close>

fun utoa :: "nat \<Rightarrow> string" where
  "utoa n = (if n < 10 then [char_of (48 + n)] else utoa (n div 10) @ [char_of (48 + n mod 10)])"

declare utoa.simps [simp del]

definition itoa :: "int \<Rightarrow> string" where
  "itoa i = (if i < 0 then CHR ''-'' # utoa (nat (- i)) else utoa (nat i))"

text \<open>The number a string of decimal digits denotes, read from the left after \<open>n\<close>.\<close>

definition dec_from :: "nat \<Rightarrow> string \<Rightarrow> nat" where
  "dec_from n ds = foldl (\<lambda>n c. n * 10 + digit_val c) n ds"

definition dec_val :: "string \<Rightarrow> nat" where
  "dec_val ds = dec_from 0 ds"

section \<open>The system main.go reads\<close>

text \<open>
  The pseudo-files, the directory listing, the symbolic link, the filesystem statistics
  and the CPU count are inputs: a record of functions, one per call the program makes,
  each returning the error or the value. \<open>Bsize\<close> is an \<open>int64\<close> in \<open>unix.Statfs_t\<close>;
  the program only converts it with \<open>uint64(stat.Bsize)\<close>, which keeps the bits, so the
  field holds that word.
\<close>

record Statfs_t =
  Bsize :: uint64
  Blocks :: uint64
  Bfree :: uint64

record os =
  ReadDir :: "string \<Rightarrow> error + string list"
  ReadFile :: "string \<Rightarrow> error + string"
  Readlink :: "string \<Rightarrow> error + string"
  Statfs :: "string \<Rightarrow> error + Statfs_t"
  NumCPU :: int

text \<open>
  What the program does with a \<open>float64\<close>: \<open>strconv.ParseFloat(s, 64)\<close>, the test
  \<open>x == 0\<close>, the division \<open>x / y\<close>, the test of \<open>encoding/json\<close> for a value it cannot
  encode (an infinity or a NaN), and the verb \<open>%.2f\<close>.
\<close>

record 'f float64_ops =
  ParseFloat :: "string \<Rightarrow> error + 'f"
  is_zero :: "'f \<Rightarrow> bool"
  quo :: "'f \<Rightarrow> 'f \<Rightarrow> 'f"
  is_inf_or_nan :: "'f \<Rightarrow> bool"
  format_2f :: "'f \<Rightarrow> string"

section \<open>The data model (main.go, lines 16-37)\<close>

record DiskInfo =
  Mountpoint :: string
  FSType :: string
  Total :: uint64
  Free :: uint64

record 'f CgroupV1 =
  MemoryLimitBytes :: "uint64 option"
  CPULimitCores :: "'f option"

record 'f SysInfo =
  FDCount :: int
  VmRSS :: int
  ExePath :: string
  CPUModel :: string
  CPUCores :: int
  MemTotal :: int
  Mounts :: "DiskInfo list"
  CgroupV1 :: "'f CgroupV1 option"

section \<open>The cgroup probes (main.go, lines 247-298)\<close>

definition readTrim :: "os \<Rightarrow> string \<Rightarrow> error + string" where
  "readTrim sys path =
     (case ReadFile sys path of
        Inl err \<Rightarrow> Inl err
      | Inr bytes \<Rightarrow> Inr (TrimSpace bytes))"

definition unlimitedThreshold :: uint64 where
  "unlimitedThreshold = push_bit 63 1 - 4096"

definition readCgroupMemoryLimit :: "os \<Rightarrow> error + uint64 option" where
  "readCgroupMemoryLimit sys =
     (case readTrim sys ''/sys/fs/cgroup/memory/memory.limit_in_bytes'' of
        Inl err \<Rightarrow> Inl err
      | Inr value \<Rightarrow>
          (case ParseUint value of
             Inl err \<Rightarrow> Inl err
           | Inr num \<Rightarrow>
               if unlimitedThreshold \<le> num then Inr None
               else Inr (Some num)))"

definition readCgroupCPULimit :: "'f float64_ops \<Rightarrow> os \<Rightarrow> error + 'f option" where
  "readCgroupCPULimit fl sys =
     (case readTrim sys ''/sys/fs/cgroup/cpu/cpu.cfs_quota_us'' of
        Inl err \<Rightarrow> Inl err
      | Inr quotaStr \<Rightarrow>
          (case readTrim sys ''/sys/fs/cgroup/cpu/cpu.cfs_period_us'' of
             Inl err \<Rightarrow> Inl err
           | Inr periodStr \<Rightarrow>
               if quotaStr = ''-1'' then Inr None
               else
                 (case ParseFloat fl quotaStr of
                    Inl err \<Rightarrow> Inl err
                  | Inr quota \<Rightarrow>
                      (case ParseFloat fl periodStr of
                         Inl err \<Rightarrow> Inl err
                       | Inr period \<Rightarrow>
                           if is_zero fl period then Inl ZeroPeriod
                           else Inr (Some (quo fl quota period))))))"

section \<open>Package fmt: the scan of one integer after a label\<close>

text \<open>
  \<open>fmt.Sscanf(line, label + " %d kB", &v)\<close> for a label of plain ASCII text without
  spaces or percent signs: the value stored in \<open>v\<close>, or \<open>None\<close> when the scan stops
  before it stores one. The scanner matches the label byte for byte; the space of the
  format then needs the end of the input or at least one white-space rune, and skips
  the white space that follows; a newline in that white space is an error; \<open>%d\<close> reads
  an optional sign and the decimal digits after it and converts them with
  \<open>strconv.ParseInt(tok, 10, 64)\<close>. The value is stored before the rest of the format
  (\<open>" kB"\<close>) is matched, so what follows the digits does not change \<open>v\<close>. The program
  ignores both results of \<open>Sscanf\<close> (the count and the error).
\<close>

definition Sscanf_d :: "string \<Rightarrow> string \<Rightarrow> int option" where
  "Sscanf_d label line =
     (if \<not> prefix label line then None
      else
        let r = drop (length label) line;
            r1 = trimLeftSpace r;
            skipped = take (length r - length r1) r
        in if r \<noteq> [] \<and> leading_space r = None then None
           else if newline \<in> set skipped then None
           else if r1 = [] then None
           else
             let sgn = (if hd r1 = CHR ''+'' \<or> hd r1 = CHR ''-'' then [hd r1] else []);
                 ds = takeWhile is_digit (drop (length sgn) r1)
             in if ds = [] then None
                else (case ParseInt (sgn @ ds) of Inl err \<Rightarrow> None | Inr i \<Rightarrow> Some i))"

section \<open>The probes (main.go, lines 132-245)\<close>

definition humanMB :: "uint64 \<Rightarrow> string" where
  "humanMB b = utoa (unat (b div 1024 div 1024)) @ '' MB''"

definition countFDs :: "os \<Rightarrow> error + int" where
  "countFDs sys =
     (case ReadDir sys ''/proc/self/fd'' of
        Inl err \<Rightarrow> Inl err
      | Inr entries \<Rightarrow> Inr (int (length entries)))"

text \<open>
  The loop of \<open>getRSS\<close>: the first line with the prefix decides. \<open>rss\<close> starts at 0 and
  keeps that value when \<open>Sscanf\<close> stores nothing.
\<close>

fun getRSS_loop :: "string list \<Rightarrow> error + int" where
  "getRSS_loop [] = Inl VmRSSNotFound"
| "getRSS_loop (line # lines) =
     (if HasPrefix line ''VmRSS:''
      then Inr (case Sscanf_d ''VmRSS:'' line of Some rss \<Rightarrow> rss | None \<Rightarrow> 0)
      else getRSS_loop lines)"

definition getRSS :: "os \<Rightarrow> error + int" where
  "getRSS sys =
     (case ReadFile sys ''/proc/self/status'' of
        Inl err \<Rightarrow> Inl err
      | Inr data \<Rightarrow> getRSS_loop (Split data newline))"

definition getBinPath :: "os \<Rightarrow> error + string" where
  "getBinPath sys =
     (case Readlink sys ''/proc/self/exe'' of
        Inl err \<Rightarrow> Inl err
      | Inr path \<Rightarrow> Inr path)"

text \<open>The loop of \<open>getCPUInfo\<close>: the first line with the prefix and a colon decides.\<close>

fun getCPUInfo_loop :: "string list \<Rightarrow> string" where
  "getCPUInfo_loop [] = []"
| "getCPUInfo_loop (line # lines) =
     (if HasPrefix line ''model name''
      then (case Cut line (CHR '':'') of
              Some (left, right) \<Rightarrow> TrimSpace right
            | None \<Rightarrow> getCPUInfo_loop lines)
      else getCPUInfo_loop lines)"

definition getCPUInfo :: "os \<Rightarrow> error + string \<times> int" where
  "getCPUInfo sys =
     (case ReadFile sys ''/proc/cpuinfo'' of
        Inl err \<Rightarrow> Inl err
      | Inr cpuData \<Rightarrow> Inr (getCPUInfo_loop (Split cpuData newline), NumCPU sys))"

text \<open>The loop of \<open>getMemInfo\<close>: every line with the prefix may overwrite \<open>memTotal\<close>.\<close>

fun getMemInfo_loop :: "string list \<Rightarrow> int \<Rightarrow> int" where
  "getMemInfo_loop [] memTotal = memTotal"
| "getMemInfo_loop (line # lines) memTotal =
     getMemInfo_loop lines
       (if HasPrefix line ''MemTotal:''
        then (case Sscanf_d ''MemTotal:'' line of Some v \<Rightarrow> v | None \<Rightarrow> memTotal)
        else memTotal)"

definition getMemInfo :: "os \<Rightarrow> error + int" where
  "getMemInfo sys =
     (case ReadFile sys ''/proc/meminfo'' of
        Inl err \<Rightarrow> Inl err
      | Inr memData \<Rightarrow> Inr (getMemInfo_loop (Split memData newline) 0))"

text \<open>
  The loop of \<open>getDisksInfo\<close>, \<open>disks\<close> the slice built so far. The statistics call
  comes before the test of the filesystem type, as in the source.
\<close>

fun getDisksInfo_loop :: "os \<Rightarrow> string list \<Rightarrow> DiskInfo list \<Rightarrow> DiskInfo list" where
  "getDisksInfo_loop sys [] disks = disks"
| "getDisksInfo_loop sys (line # lines) disks =
     (if line = [] then getDisksInfo_loop sys lines disks
      else
        let fields = Fields line
        in if length fields < 3 then getDisksInfo_loop sys lines disks
           else
             let mountpoint = fields ! 1;
                 fsType = fields ! 2
             in case Statfs sys mountpoint of
                  Inl err \<Rightarrow> getDisksInfo_loop sys lines disks
                | Inr stat \<Rightarrow>
                    if fsType = ''proc'' \<or> fsType = ''sysfs'' \<or> fsType = ''cgroup''
                    then getDisksInfo_loop sys lines disks
                    else
                      let total = Blocks stat * Bsize stat;
                          free = Bfree stat * Bsize stat
                      in getDisksInfo_loop sys lines
                           (disks @ [\<lparr>Mountpoint = mountpoint, FSType = fsType,
                                      Total = total, Free = free\<rparr>]))"

definition getDisksInfo :: "os \<Rightarrow> error + DiskInfo list" where
  "getDisksInfo sys =
     (case ReadFile sys ''/proc/mounts'' of
        Inl err \<Rightarrow> Inl err
      | Inr data \<Rightarrow> Inr (getDisksInfo_loop sys (Split data newline) []))"

section \<open>Package encoding/json, for the types of main.go\<close>

text \<open>
  \<open>rune_len s\<close> is the width of the valid UTF-8 encoding at the head of \<open>s\<close>, and 0
  where \<open>utf8.DecodeRuneInString\<close> returns \<open>RuneError\<close> with width 1 (the ranges are
  those of its tables \<open>first\<close> and \<open>acceptRanges\<close>). The encoder writes a string
  "coerced to valid UTF-8, replacing invalid bytes with the Unicode replacement rune"
  U+FFFD, whose encoding is EF BF BD.
\<close>

fun bytes_in :: "(nat \<times> nat) list \<Rightarrow> string \<Rightarrow> bool" where
  "bytes_in [] s = True"
| "bytes_in ((lo, hi) # rs) [] = False"
| "bytes_in ((lo, hi) # rs) (c # cs) = (lo \<le> of_char c \<and> of_char c \<le> hi \<and> bytes_in rs cs)"

definition rune_len :: "string \<Rightarrow> nat" where
  "rune_len s =
     (case s of
        [] \<Rightarrow> 0
      | c # cs \<Rightarrow>
          let b = (of_char c :: nat); cb = (0x80, 0xBF)
          in if b < 0x80 then 1
             else if 0xC2 \<le> b \<and> b \<le> 0xDF then (if bytes_in [cb] cs then 2 else 0)
             else if b = 0xE0 then (if bytes_in [(0xA0, 0xBF), cb] cs then 3 else 0)
             else if b = 0xED then (if bytes_in [(0x80, 0x9F), cb] cs then 3 else 0)
             else if 0xE1 \<le> b \<and> b \<le> 0xEF then (if bytes_in [cb, cb] cs then 3 else 0)
             else if b = 0xF0 then (if bytes_in [(0x90, 0xBF), cb, cb] cs then 4 else 0)
             else if 0xF1 \<le> b \<and> b \<le> 0xF3 then (if bytes_in [cb, cb, cb] cs then 4 else 0)
             else if b = 0xF4 then (if bytes_in [(0x80, 0x8F), cb, cb] cs then 4 else 0)
             else 0)"

function toValidUTF8 :: "string \<Rightarrow> string" where
  "toValidUTF8 s =
     (if s = [] then []
      else if rune_len s = 0 then [CHR 0xEF, CHR 0xBF, CHR 0xBD] @ toValidUTF8 (tl s)
      else take (rune_len s) s @ toValidUTF8 (drop (rune_len s) s))"
  by pat_completeness auto
termination
  by (relation "measure length") auto

declare toValidUTF8.simps [simp del]

definition ValidString :: "string \<Rightarrow> bool" where
  "ValidString s = (toValidUTF8 s = s)"

text \<open>
  A JSON document as a tree. \<open>JInt\<close>, \<open>JUint\<close> and \<open>JFloat\<close> are number literals
  written from an \<open>int\<close>, a \<open>uint64\<close> and a \<open>float64\<close>; \<open>JString\<close> holds the text of
  the string after the coercion to valid UTF-8; an object keeps its keys in the order
  they are written. The layout of the text (\<open>MarshalIndent\<close>: escapes, two-space
  indentation) and reading that text back into the same tree are the library's.
\<close>

datatype 'f json =
    JNull
  | JInt int
  | JUint uint64
  | JFloat 'f
  | JString string
  | JArray "'f json list"
  | JObject "(string \<times> 'f json) list"

text \<open>
  \<open>json.Marshal\<close> on the three struct types. A field without a tag is written under
  its Go name; a nil slice is written as \<open>null\<close> (the empty list is the nil slice: the
  program builds its slice with \<open>append\<close> from nil); \<open>omitempty\<close> drops a nil pointer;
  an infinity or a NaN is an \<open>UnsupportedValueError\<close>.
\<close>

definition marshal_DiskInfo :: "DiskInfo \<Rightarrow> 'f json" where
  "marshal_DiskInfo d =
     JObject [(''Mountpoint'', JString (toValidUTF8 (Mountpoint d))),
              (''FSType'', JString (toValidUTF8 (FSType d))),
              (''Total'', JUint (Total d)),
              (''Free'', JUint (Free d))]"

definition marshal_CgroupV1 :: "'f float64_ops \<Rightarrow> 'f CgroupV1 \<Rightarrow> error + 'f json" where
  "marshal_CgroupV1 fl c =
     (case CPULimitCores c of
        None \<Rightarrow>
          Inr (JObject (case MemoryLimitBytes c of
                          None \<Rightarrow> []
                        | Some m \<Rightarrow> [(''memory_limit_bytes'', JUint m)]))
      | Some x \<Rightarrow>
          if is_inf_or_nan fl x then Inl UnsupportedValue
          else Inr (JObject ((case MemoryLimitBytes c of
                                None \<Rightarrow> []
                              | Some m \<Rightarrow> [(''memory_limit_bytes'', JUint m)])
                             @ [(''cpu_limit_cores'', JFloat x)])))"

definition marshal_SysInfo :: "'f float64_ops \<Rightarrow> 'f SysInfo \<Rightarrow> error + 'f json" where
  "marshal_SysInfo fl info =
     (let fields =
            [(''fd_count'', JInt (FDCount info)),
             (''vmrss_bytes'', JInt (VmRSS info)),
             (''exe_path'', JString (toValidUTF8 (ExePath info))),
             (''cpu_model'', JString (toValidUTF8 (CPUModel info))),
             (''cpu_cores'', JInt (CPUCores info)),
             (''mem_total_kb'', JInt (MemTotal info)),
             (''mounts'', if Mounts info = [] then JNull
                          else JArray (map marshal_DiskInfo (Mounts info)))]
      in case CgroupV1 info of
           None \<Rightarrow> Inr (JObject fields)
         | Some c \<Rightarrow>
             (case marshal_CgroupV1 fl c of
                Inl err \<Rightarrow> Inl err
              | Inr j \<Rightarrow> Inr (JObject (fields @ [(''cgroup_v1'', j)]))))"

text \<open>
  \<open>json.Unmarshal\<close> into a zero value of the three struct types. The program never
  calls it: it is modelled as the library documents it, to state what reading a
  document back gives. A key that is missing and the value \<open>null\<close> leave a field at its
  zero value; of two equal keys the last one counts; an integer literal is accepted
  where it fits the type of the field. Keys are compared exactly (the library also
  accepts a key that differs in the case of its letters when none matches exactly),
  and a float field takes only a literal written from a \<open>float64\<close> (the library also
  accepts an integer literal): the encoder writes neither.
\<close>

definition field :: "(string \<times> 'f json) list \<Rightarrow> string \<Rightarrow> 'f json" where
  "field kvs k = (case map_of (rev kvs) k of None \<Rightarrow> JNull | Some j \<Rightarrow> j)"

definition int64_range :: "int \<Rightarrow> bool" where
  "int64_range i = (- (2 ^ 63) \<le> i \<and> i < 2 ^ 63)"

definition unmarshal_int :: "'f json \<Rightarrow> error + int" where
  "unmarshal_int j =
     (case j of
        JNull \<Rightarrow> Inr 0
      | JInt i \<Rightarrow> if int64_range i then Inr i else Inl UnmarshalTypeError
      | JUint u \<Rightarrow> if int64_range (uint u) then Inr (uint u) else Inl UnmarshalTypeError
      | _ \<Rightarrow> Inl UnmarshalTypeError)"

definition unmarshal_uint64 :: "'f json \<Rightarrow> error + uint64" where
  "unmarshal_uint64 j =
     (case j of
        JNull \<Rightarrow> Inr 0
      | JInt i \<Rightarrow> if 0 \<le> i \<and> i < 2 ^ 64 then Inr (of_int i) else Inl UnmarshalTypeError
      | JUint u \<Rightarrow> Inr u
      | _ \<Rightarrow> Inl UnmarshalTypeError)"

definition unmarshal_string :: "'f json \<Rightarrow> error + string" where
  "unmarshal_string j =
     (case j of
        JNull \<Rightarrow> Inr []
      | JString s \<Rightarrow> Inr s
      | _ \<Rightarrow> Inl UnmarshalTypeError)"

definition unmarshal_DiskInfo :: "'f json \<Rightarrow> error + DiskInfo" where
  "unmarshal_DiskInfo j =
     (case j of
        JNull \<Rightarrow> Inr \<lparr>Mountpoint = [], FSType = [], Total = 0, Free = 0\<rparr>
      | JObject kvs \<Rightarrow>
          (case unmarshal_string (field kvs ''Mountpoint'') of Inl err \<Rightarrow> Inl err | Inr m \<Rightarrow>
          (case unmarshal_string (field kvs ''FSType'') of Inl err \<Rightarrow> Inl err | Inr t \<Rightarrow>
          (case unmarshal_uint64 (field kvs ''Total'') of Inl err \<Rightarrow> Inl err | Inr tot \<Rightarrow>
          (case unmarshal_uint64 (field kvs ''Free'') of Inl err \<Rightarrow> Inl err | Inr fr \<Rightarrow>
             Inr \<lparr>Mountpoint = m, FSType = t, Total = tot, Free = fr\<rparr>))))
      | _ \<Rightarrow> Inl UnmarshalTypeError)"

fun unmarshal_each :: "('f json \<Rightarrow> error + 'a) \<Rightarrow> 'f json list \<Rightarrow> error + 'a list" where
  "unmarshal_each f [] = Inr []"
| "unmarshal_each f (j # js) =
     (case f j of
        Inl err \<Rightarrow> Inl err
      | Inr x \<Rightarrow> (case unmarshal_each f js of Inl err \<Rightarrow> Inl err | Inr xs \<Rightarrow> Inr (x # xs)))"

definition unmarshal_Mounts :: "'f json \<Rightarrow> error + DiskInfo list" where
  "unmarshal_Mounts j =
     (case j of
        JNull \<Rightarrow> Inr []
      | JArray js \<Rightarrow> unmarshal_each unmarshal_DiskInfo js
      | _ \<Rightarrow> Inl UnmarshalTypeError)"

definition unmarshal_uint64_ptr :: "'f json \<Rightarrow> error + uint64 option" where
  "unmarshal_uint64_ptr j =
     (case j of
        JNull \<Rightarrow> Inr None
      | _ \<Rightarrow> (case unmarshal_uint64 j of Inl err \<Rightarrow> Inl err | Inr u \<Rightarrow> Inr (Some u)))"

definition unmarshal_float64_ptr :: "'f json \<Rightarrow> error + 'f option" where
  "unmarshal_float64_ptr j =
     (case j of
        JNull \<Rightarrow> Inr None
      | JFloat x \<Rightarrow> Inr (Some x)
      | _ \<Rightarrow> Inl UnmarshalTypeError)"

definition unmarshal_CgroupV1_ptr :: "'f json \<Rightarrow> error + 'f CgroupV1 option" where
  "unmarshal_CgroupV1_ptr j =
     (case j of
        JNull \<Rightarrow> Inr None
      | JObject kvs \<Rightarrow>
          (case unmarshal_uint64_ptr (field kvs ''memory_limit_bytes'') of
             Inl err \<Rightarrow> Inl err
           | Inr m \<Rightarrow>
          (case unmarshal_float64_ptr (field kvs ''cpu_limit_cores'') of
             Inl err \<Rightarrow> Inl err
           | Inr c \<Rightarrow> Inr (Some \<lparr>MemoryLimitBytes = m, CPULimitCores = c\<rparr>)))
      | _ \<Rightarrow> Inl UnmarshalTypeError)"

definition unmarshal_SysInfo :: "'f json \<Rightarrow> error + 'f SysInfo" where
  "unmarshal_SysInfo j =
     (case j of
        JObject kvs \<Rightarrow>
          (case unmarshal_int (field kvs ''fd_count'') of Inl err \<Rightarrow> Inl err | Inr fds \<Rightarrow>
          (case unmarshal_int (field kvs ''vmrss_bytes'') of Inl err \<Rightarrow> Inl err | Inr vmrss \<Rightarrow>
          (case unmarshal_string (field kvs ''exe_path'') of Inl err \<Rightarrow> Inl err | Inr path \<Rightarrow>
          (case unmarshal_string (field kvs ''cpu_model'') of Inl err \<Rightarrow> Inl err | Inr model \<Rightarrow>
          (case unmarshal_int (field kvs ''cpu_cores'') of Inl err \<Rightarrow> Inl err | Inr cores \<Rightarrow>
          (case unmarshal_int (field kvs ''mem_total_kb'') of Inl err \<Rightarrow> Inl err | Inr memTotal \<Rightarrow>
          (case unmarshal_Mounts (field kvs ''mounts'') of Inl err \<Rightarrow> Inl err | Inr disks \<Rightarrow>
          (case unmarshal_CgroupV1_ptr (field kvs ''cgroup_v1'') of Inl err \<Rightarrow> Inl err | Inr cg \<Rightarrow>
             Inr \<lparr>FDCount = fds, VmRSS = vmrss, ExePath = path, CPUModel = model,
                  CPUCores = cores, MemTotal = memTotal, Mounts = disks, CgroupV1 = cg\<rparr>))))))))
      | _ \<Rightarrow> Inl UnmarshalTypeError)"

section \<open>main (main.go, lines 39-130)\<close>

text \<open>
  What a run writes: the line of \<open>fmt.Println(label, err)\<close>, the JSON document, or the
  lines of the table (as they are written to the tabwriter, before it aligns the
  columns; each without its final newline). A run ends with what it wrote to standard
  output, what it wrote to standard error, and its exit code.
\<close>

datatype 'f item =
    ErrorLine string error
  | JSONText "'f json"
  | TableText "string list"

record 'f outcome =
  Stdout :: "'f item list"
  Stderr :: "'f item list"
  ExitCode :: nat

text \<open>\<open>fmt.Println\<close> writes its operands with a space between any two of them.\<close>

fun Println :: "string list \<Rightarrow> string" where
  "Println [] = []"
| "Println [x] = x"
| "Println (x # y # ys) = x @ '' '' @ Println (y # ys)"

definition table :: "'f float64_ops \<Rightarrow> 'f SysInfo \<Rightarrow> string list" where
  "table fl info =
     [Println [''FDs count:'' @ [tab], itoa (FDCount info)],
      Println [''VmRSS:'' @ [tab], itoa (VmRSS info), ''B''],
      Println [''EXE path:'' @ [tab], ExePath info],
      Println [''CPU model:'' @ [tab], CPUModel info],
      Println [''CPU cores:'' @ [tab], itoa (CPUCores info)],
      Println [''MemTotal:'' @ [tab], itoa (MemTotal info), ''kB'']]
     @ (case CgroupV1 info of
          None \<Rightarrow> []
        | Some c \<Rightarrow>
            [(case MemoryLimitBytes c of
                None \<Rightarrow> Println [''Cgroup (v1) MemLimit:'' @ [tab], ''unlimited'']
              | Some m \<Rightarrow> Println [''Cgroup (v1) MemLimit:'' @ [tab], humanMB m]),
             (case CPULimitCores c of
                None \<Rightarrow> Println [''Cgroup (v1) CPULimit:'' @ [tab], ''unlimited'']
              | Some x \<Rightarrow> ''Cgroup (v1) CPULimit:'' @ [tab] @ format_2f fl x @ '' cores''),
             []])
     @ [Println [''Mounts count:'' @ [tab], itoa (int (length (Mounts info)))],
        [],
        ''Mount:'' @ [tab] @ ''FS:'' @ [tab] @ ''Total:'' @ [tab] @ ''Free:'']
     @ map (\<lambda>d. Mountpoint d @ [tab] @ FSType d @ [tab] @ humanMB (Total d) @ [tab]
                  @ humanMB (Free d))
         (Mounts info)"

text \<open>
  Lines 42-88: the probes in their order. The result is what was printed and the
  snapshot, or no snapshot when the run returned early. Each probe of the source
  returns the zero value of its type together with an error (\<open>0\<close>, \<open>""\<close>, \<open>nil\<close>), and
  \<open>main\<close> uses that value after printing the error.
\<close>

definition collect :: "'f float64_ops \<Rightarrow> os \<Rightarrow> 'f item list \<times> 'f SysInfo option" where
  "collect fl sys =
     (case countFDs sys of
        Inl err \<Rightarrow> ([ErrorLine (''FDs counting error:'' @ [tab]) err], None)
      | Inr fds \<Rightarrow>
     (case getRSS sys of
        Inl err \<Rightarrow> ([ErrorLine (''VmRRS getting error:'' @ [tab]) err], None)
      | Inr vmrss \<Rightarrow>
          let (path, out1) =
                (case getBinPath sys of
                   Inl err \<Rightarrow> ([], [ErrorLine (''Path getting error:'' @ [tab]) err])
                 | Inr p \<Rightarrow> (p, []));
              (model, cores, out2) =
                (case getCPUInfo sys of
                   Inl err \<Rightarrow> ([], 0, out1 @ [ErrorLine (''CPU info getting error:'' @ [tab]) err])
                 | Inr (m, c) \<Rightarrow> (m, c, out1));
              (memTotal, out3) =
                (case getMemInfo sys of
                   Inl err \<Rightarrow> (0, out2 @ [ErrorLine (''Mem info getting error:'' @ [tab]) err])
                 | Inr m \<Rightarrow> (m, out2));
              (disks, out4) =
                (case getDisksInfo sys of
                   Inl err \<Rightarrow> ([], out3 @ [ErrorLine (''Disk info getting error:'' @ [tab]) err])
                 | Inr ds \<Rightarrow> (ds, out3));
              (memLimit, out5) =
                (case readCgroupMemoryLimit sys of
                   Inl err \<Rightarrow> (None, out4 @ [ErrorLine (''cgroup memory limit error:'' @ [tab]) err])
                 | Inr l \<Rightarrow> (l, out4));
              (cpuLimit, out6) =
                (case readCgroupCPULimit fl sys of
                   Inl err \<Rightarrow> (None, out5 @ [ErrorLine (''cgroup CPU limit error:'' @ [tab]) err])
                 | Inr l \<Rightarrow> (l, out5))
          in (out6,
              Some \<lparr>FDCount = fds, VmRSS = vmrss, ExePath = path, CPUModel = model,
                    CPUCores = cores, MemTotal = memTotal, Mounts = disks,
                    CgroupV1 = Some \<lparr>MemoryLimitBytes = memLimit,
                                      CPULimitCores = cpuLimit\<rparr>\<rparr>)))"

text \<open>Lines 90-129: the report, after what the probes printed.\<close>

definition main :: "'f float64_ops \<Rightarrow> os \<Rightarrow> bool \<Rightarrow> 'f outcome" where
  "main fl sys jsonOutput =
     (case collect fl sys of
        (out, None) \<Rightarrow> \<lparr>Stdout = out, Stderr = [], ExitCode = 0\<rparr>
      | (out, Some info) \<Rightarrow>
          if jsonOutput then
            (case marshal_SysInfo fl info of
               Inl err \<Rightarrow> \<lparr>Stdout = out, Stderr = [ErrorLine ''JSON marshal error:'' err],
                           ExitCode = 1\<rparr>
             | Inr doc \<Rightarrow> \<lparr>Stdout = out @ [JSONText doc], Stderr = [], ExitCode = 0\<rparr>)
          else \<lparr>Stdout = out @ [TableText (table fl info)], Stderr = [], ExitCode = 0\<rparr>)"

section \<open>Example systems\<close>

text \<open>
  Concrete inputs, to run the model on: a file system given by the list of its files,
  and a stand-in for \<open>float64\<close> that reads unsigned decimal numerals as exact
  rationals.
\<close>

definition ENOENT :: error where
  "ENOENT = OSError ''no such file or directory''"

definition files :: "(string \<times> string) list \<Rightarrow> string \<Rightarrow> error + string" where
  "files fs path = (case map_of fs path of None \<Rightarrow> Inl ENOENT | Some data \<Rightarrow> Inr data)"

definition example_stat :: Statfs_t where
  "example_stat = \<lparr>Bsize = 4096, Blocks = 1000000, Bfree = 250000\<rparr>"

definition example_os :: "(string \<times> string) list \<Rightarrow> (string \<times> Statfs_t) list \<Rightarrow> os" where
  "example_os fs mounted =
     \<lparr>ReadDir = (\<lambda>path. if path = ''/proc/self/fd'' then Inr [''0'', ''1'', ''2''] else Inl ENOENT),
      ReadFile = files fs,
      Readlink = (\<lambda>path. if path = ''/proc/self/exe'' then Inr ''/usr/bin/sysinfo'' else Inl ENOENT),
      Statfs = (\<lambda>path. case map_of mounted path of None \<Rightarrow> Inl ENOENT | Some st \<Rightarrow> Inr st),
      NumCPU = 4\<rparr>"

definition decimal_ops :: "rat float64_ops" where
  "decimal_ops =
     \<lparr>ParseFloat = (\<lambda>s. case ParseUint s of Inl err \<Rightarrow> Inl err | Inr n \<Rightarrow> Inr (of_nat (unat n))),
      is_zero = (\<lambda>x. x = 0),
      quo = (\<lambda>x y. x / y),
      is_inf_or_nan = (\<lambda>x. False),
      format_2f = (\<lambda>x. let h = nat \<lfloor>x * 100 + 1 / 2\<rfloor>
                        in utoa (h div 100) @ ''.'' @ utoa (h div 10 mod 10) @ utoa (h mod 10))\<rparr>"

definition cpu_files :: "string \<Rightarrow> string \<Rightarrow> (string \<times> string) list" where
  "cpu_files quota period =
     [(''/sys/fs/cgroup/cpu/cpu.cfs_quota_us'', quota),
      (''/sys/fs/cgroup/cpu/cpu.cfs_period_us'', period)]"

definition quota_only :: "(string \<times> string) list" where
  "quota_only = [(''/sys/fs/cgroup/cpu/cpu.cfs_quota_us'', ''-1'' @ [newline])]"

definition mem_files :: "string \<Rightarrow> (string \<times> string) list" where
  "mem_files limit = [(''/sys/fs/cgroup/memory/memory.limit_in_bytes'', limit)]"

definition status_file :: "string \<Rightarrow> (string \<times> string) list" where
  "status_file data = [(''/proc/self/status'', data)]"

definition status_ok :: string where
  "status_ok = ''Name:'' @ [tab] @ ''sysinfo'' @ [newline] @ ''VmRSS: 4096 kB'' @ [newline]
     @ ''Threads:'' @ [tab] @ ''1'' @ [newline]"

definition status_proc :: string where
  "status_proc = ''Name:'' @ [tab] @ ''sysinfo'' @ [newline]
     @ ''VmRSS:'' @ [tab] @ ''    4096 kB'' @ [newline]"


definition mounts_file :: "string \<Rightarrow> (string \<times> string) list" where
  "mounts_file data = [(''/proc/mounts'', data)]"

definition mounts_example :: string where
  "mounts_example =
     ''proc /proc proc rw 0 0'' @ [newline]
     @ ''/dev/sda1 / ext4 rw 0 0'' @ [newline]
     @ ''short line'' @ [newline]
     @ ''sysfs /sys sysfs rw 0 0'' @ [newline]
     @ ''none /x sysfsx rw 0 0'' @ [newline]
     @ ''/dev/sdb1 /gone ext4 rw 0 0'' @ [newline]"

definition mounted_example :: "(string \<times> Statfs_t) list" where
  "mounted_example =
     [(''/proc'', \<lparr>Bsize = 4096, Blocks = 0, Bfree = 0\<rparr>),
      (''/'', example_stat),
      (''/sys'', \<lparr>Bsize = 4096, Blocks = 0, Bfree = 0\<rparr>),
      (''/x'', \<lparr>Bsize = 512, Blocks = 8, Bfree = 2\<rparr>)]"


definition sda1_disk :: DiskInfo where
  "sda1_disk = \<lparr>Mountpoint = ''/'', FSType = ''ext4'', Total = 4096000000, Free = 1024000000\<rparr>"

definition no_fd_os :: os where
  "no_fd_os = (example_os [] []) \<lparr>ReadDir := (\<lambda>path. Inl ENOENT)\<rparr>"

definition status_os :: os where
  "status_os = example_os (status_file status_ok) []"

definition status_info :: "rat SysInfo" where
  "status_info =
     \<lparr>FDCount = 3, VmRSS = 4096, ExePath = ''/usr/bin/sysinfo'', CPUModel = [], CPUCores = 0,
      MemTotal = 0, Mounts = [],
      CgroupV1 = Some \<lparr>MemoryLimitBytes = None, CPULimitCores = None\<rparr>\<rparr>"

definition status_errors :: "rat item list" where
  "status_errors =
     [ErrorLine (''CPU info getting error:'' @ [tab]) ENOENT,
      ErrorLine (''Mem info getting error:'' @ [tab]) ENOENT,
      ErrorLine (''Disk info getting error:'' @ [tab]) ENOENT,
      ErrorLine (''cgroup memory limit error:'' @ [tab]) ENOENT,
      ErrorLine (''cgroup CPU limit error:'' @ [tab]) ENOENT]"

definition full_info :: "rat SysInfo" where
  "full_info =
     \<lparr>FDCount = 3, VmRSS = 4096, ExePath = ''/usr/bin/sysinfo'', CPUModel = ''Example CPU'',
      CPUCores = 4, MemTotal = 16384, Mounts = [sda1_disk],
      CgroupV1 = Some \<lparr>MemoryLimitBytes = Some 536870912, CPULimitCores = Some (1 / 2)\<rparr>\<rparr>"

definition bare_info :: "rat SysInfo" where
  "bare_info = full_info \<lparr>Mounts := [], CgroupV1 := None\<rparr>"

definition bad_os :: os where
  "bad_os = status_os \<lparr>Readlink := (\<lambda>path. Inr (''/tmp/'' @ [CHR 0xFF]))\<rparr>"

definition bad_info :: "rat SysInfo" where
  "bad_info = status_info \<lparr>ExePath := ''/tmp/'' @ [CHR 0xFF]\<rparr>"

section \<open>The run and the document in the words of the specification\<close>

text \<open>
  What a probe that may fail adds to the output, and the value the snapshot takes from
  it: the error line and the zero value when it fails, nothing and its value when it
  succeeds.
\<close>

definition printed :: "string \<Rightarrow> error + 'a \<Rightarrow> 'f item list" where
  "printed label r = (case r of Inl err \<Rightarrow> [ErrorLine (label @ [tab]) err] | Inr v \<Rightarrow> [])"

definition value_or :: "'a \<Rightarrow> error + 'a \<Rightarrow> 'a" where
  "value_or z r = (case r of Inl err \<Rightarrow> z | Inr v \<Rightarrow> v)"

text \<open>
  Writing a snapshot and reading the document back; the keys of the top-level object
  that are always written; and the snapshots that are written and read back
  unchanged: their integers are Go \<open>int\<close>s, their strings are valid UTF-8, and their
  CPU limit is neither an infinity nor a NaN.
\<close>

definition round_trip :: "'f float64_ops \<Rightarrow> 'f SysInfo \<Rightarrow> error + 'f SysInfo" where
  "round_trip fl info =
     (case marshal_SysInfo fl info of Inl err \<Rightarrow> Inl err | Inr doc \<Rightarrow> unmarshal_SysInfo doc)"

definition base_keys :: "string list" where
  "base_keys = [''fd_count'', ''vmrss_bytes'', ''exe_path'', ''cpu_model'', ''cpu_cores'',
                ''mem_total_kb'', ''mounts'']"

definition encodable :: "'f float64_ops \<Rightarrow> 'f SysInfo \<Rightarrow> bool" where
  "encodable fl info =
     (int64_range (FDCount info) \<and> int64_range (VmRSS info) \<and> int64_range (CPUCores info)
      \<and> int64_range (MemTotal info)
      \<and> ValidString (ExePath info) \<and> ValidString (CPUModel info)
      \<and> list_all (\<lambda>d. ValidString (Mountpoint d) \<and> ValidString (FSType d)) (Mounts info)
      \<and> (case CgroupV1 info of
            None \<Rightarrow> True
          | Some c \<Rightarrow> (case CPULimitCores c of None \<Rightarrow> True | Some x \<Rightarrow> \<not> is_inf_or_nan fl x)))"

section \<open>The scan in the words of the specification\<close>

text \<open>
  What stands after the label "VmRSS:" holds no integer where the pattern expects one
  when the label is followed by a character that is no white space, or when, after any
  run of white space, the line ends, or no digit follows the optional sign, or the
  digits denote a number outside the range of \<open>int\<close> (at most 2^63 - 1, and 2^63 after a
  minus sign). Otherwise \<open>scanned_int\<close> is the integer that stands there.
\<close>

definition sign_of :: "string \<Rightarrow> string" where
  "sign_of body =
     (if body \<noteq> [] \<and> (hd body = CHR ''+'' \<or> hd body = CHR ''-'') then [hd body] else [])"

definition digits_of :: "string \<Rightarrow> string" where
  "digits_of body = takeWhile is_digit (drop (length (sign_of body)) body)"

definition no_integer :: "string \<Rightarrow> bool" where
  "no_integer rest =
     (let body = trimLeftSpace rest; ds = digits_of body
      in (rest \<noteq> [] \<and> leading_space rest = None)
         \<or> body = []
         \<or> ds = []
         \<or> (if sign_of body = ''-'' then 2 ^ 63 < dec_val ds else 2 ^ 63 \<le> dec_val ds))"

definition scanned_int :: "string \<Rightarrow> int" where
  "scanned_int rest =
     (let body = trimLeftSpace rest; ds = digits_of body
      in if sign_of body = ''-'' then - int (dec_val ds) else int (dec_val ds))"

section \<open>The disk probe in the words of the specification\<close>

text \<open>
  A line of the mounts table is reported when it has at least three fields, the
  statistics call on its second field succeeds, and its third field is none of the
  three pseudo-filesystem types; its entry is computed from the statistics.
\<close>

definition pseudo_fs :: "string \<Rightarrow> bool" where
  "pseudo_fs t = (t = ''proc'' \<or> t = ''sysfs'' \<or> t = ''cgroup'')"

definition spec_reported :: "os \<Rightarrow> string \<Rightarrow> bool" where
  "spec_reported sys line =
     (3 \<le> length (Fields line) \<and> \<not> isl (Statfs sys (Fields line ! 1))
      \<and> \<not> pseudo_fs (Fields line ! 2))"

definition spec_entry :: "os \<Rightarrow> string \<Rightarrow> DiskInfo" where
  "spec_entry sys line =
     (let st = projr (Statfs sys (Fields line ! 1))
      in \<lparr>Mountpoint = Fields line ! 1, FSType = Fields line ! 2,
          Total = Blocks st * Bsize st, Free = Bfree st * Bsize st\<rparr>)"

section \<open>Properties of the library functions\<close>

lemma dec_from_simps [simp]:
  "dec_from n [] = n"
  "dec_from n (c # cs) = dec_from (n * 10 + digit_val c) cs"
  by (simp_all add: dec_from_def)

lemma dec_from_ge: "n \<le> dec_from n ds"
proof (induction ds arbitrary: n)
  case Nil
  show ?case by simp
next
  case (Cons c cs)
  have "n \<le> n * 10 + digit_val c" by simp
  also have "\<dots> \<le> dec_from (n * 10 + digit_val c) cs" by (rule Cons.IH)
  finally show ?case by simp
qed

lemma digit_val_less: "is_digit c \<Longrightarrow> digit_val c < 10"
  by (auto simp: is_digit_def digit_val_def)

lemma cutoff_val: "unat cutoff = 1844674407370955162"
  by (simp add: cutoff_def maxUint64_def)

lemma ParseUint_loop_digits:
  assumes "\<forall>c \<in> set ds. is_digit c"
  shows "ParseUint_loop n ds =
    (if dec_from (unat n) ds < 2 ^ 64 then Inr (of_nat (dec_from (unat n) ds)) else Inl ErrRange)"
  using assms
proof (induction ds arbitrary: n)
  case Nil
  show ?case using unsigned_less [of n] by simp
next
  case (Cons c cs)
  then have dc: "is_digit c" and rest: "\<forall>c \<in> set cs. is_digit c" by simp_all
  have d10: "digit_val c < 10" using dc by (rule digit_val_less)
  show ?case
  proof (cases "cutoff \<le> n")
    case True
    then have "1844674407370955162 \<le> unat n"
      by (simp add: word_le_nat_alt cutoff_val)
    then have "2 ^ 64 \<le> unat n * 10 + digit_val c" by simp
    also have "\<dots> \<le> dec_from (unat n * 10 + digit_val c) cs" by (rule dec_from_ge)
    finally show ?thesis using dc True by simp
  next
    case False
    then have small: "unat n < 1844674407370955162"
      by (simp add: word_le_nat_alt cutoff_val)
    have m: "unat (n * 10) = unat n * 10"
      using small unat_mult_lem [of n 10] by simp
    have dv: "unat (of_nat (digit_val c) :: uint64) = digit_val c"
      using d10 by (simp add: unat_of_nat)
    show ?thesis
    proof (cases "unat n * 10 + digit_val c < 2 ^ 64")
      case True
      have a: "unat (n * 10 + of_nat (digit_val c)) = unat n * 10 + digit_val c"
        using True m dv unat_add_lem [of "n * 10" "of_nat (digit_val c)"] by simp
      have nolt: "\<not> n * 10 + of_nat (digit_val c) < n * 10"
        by (simp add: word_less_nat_alt a m)
      have nomax: "\<not> maxUint64 < n * 10 + of_nat (digit_val c)"
        by (simp add: maxUint64_def not_less)
      show ?thesis
        using dc \<open>\<not> cutoff \<le> n\<close> nolt nomax Cons.IH [OF rest, of "n * 10 + of_nat (digit_val c)"]
        by (simp add: Let_def a)
    next
      case False
      have "\<not> n * 10 \<le> n * 10 + of_nat (digit_val c)"
        using False m dv no_olen_add_nat [of "n * 10" "of_nat (digit_val c)"] by simp
      then have lt: "n * 10 + of_nat (digit_val c) < n * 10" by simp
      have "2 ^ 64 \<le> unat n * 10 + digit_val c" using False by simp
      also have "\<dots> \<le> dec_from (unat n * 10 + digit_val c) cs" by (rule dec_from_ge)
      finally show ?thesis using dc \<open>\<not> cutoff \<le> n\<close> lt by (simp add: Let_def)
    qed
  qed
qed

lemma ParseUint_loop_nondigit:
  "\<exists>c \<in> set s. \<not> is_digit c \<Longrightarrow> \<exists>e. ParseUint_loop n s = Inl e"
  by (induction s arbitrary: n) (auto simp: Let_def)

lemma ParseUint_digits:
  assumes "s \<noteq> []" and "\<forall>c \<in> set s. is_digit c"
  shows "ParseUint s = (if dec_val s < 2 ^ 64 then Inr (of_nat (dec_val s)) else Inl ErrRange)"
  using assms ParseUint_loop_digits [of s 0] by (simp add: ParseUint_def dec_val_def)

lemma ParseUint_Inr_iff:
  "ParseUint s = Inr v \<longleftrightarrow>
     s \<noteq> [] \<and> (\<forall>c \<in> set s. is_digit c) \<and> dec_val s < 2 ^ 64 \<and> v = of_nat (dec_val s)"
proof (cases "s \<noteq> [] \<and> (\<forall>c \<in> set s. is_digit c)")
  case True
  then show ?thesis by (auto simp: ParseUint_digits)
next
  case False
  then consider "s = []" | "s \<noteq> []" "\<exists>c \<in> set s. \<not> is_digit c" by blast
  then show ?thesis
  proof cases
    case 1
    then show ?thesis by (simp add: ParseUint_def)
  next
    case 2
    then obtain e where "ParseUint_loop 0 s = Inl e"
      using ParseUint_loop_nondigit [of s 0] by blast
    then show ?thesis using 2 by (auto simp: ParseUint_def)
  qed
qed

lemma ParseUint_unat:
  assumes "ParseUint s = Inr v"
  shows "unat v = dec_val s"
proof -
  from assms have "dec_val s < 2 ^ 64" and "v = of_nat (dec_val s)"
    by (simp_all add: ParseUint_Inr_iff)
  then show ?thesis by (simp add: unat_of_nat)
qed

lemma unlimitedThreshold_val: "unat unlimitedThreshold = 2 ^ 63 - 4096"
  by (simp add: unlimitedThreshold_def)

lemma ReadFile_cpu_files:
  "ReadFile (example_os (cpu_files quota period) []) ''/sys/fs/cgroup/cpu/cpu.cfs_quota_us'' = Inr quota"
  "ReadFile (example_os (cpu_files quota period) []) ''/sys/fs/cgroup/cpu/cpu.cfs_period_us'' = Inr period"
  by (simp_all add: example_os_def cpu_files_def files_def)

lemma ReadFile_mem_files:
  "ReadFile (example_os (mem_files limit) []) ''/sys/fs/cgroup/memory/memory.limit_in_bytes'' = Inr limit"
  by (simp add: example_os_def mem_files_def files_def)

lemma TrimSpace_minus_one: "TrimSpace (''-1'' @ [newline]) = ''-1''"
  by code_simp

lemma TrimSpace_50000: "TrimSpace (''50000'' @ [newline]) = ''50000''"
  by code_simp

lemma TrimSpace_100000: "TrimSpace (''100000'' @ [newline]) = ''100000''"
  by code_simp

lemma TrimSpace_0: "TrimSpace (''0'' @ [newline]) = ''0''"
  by code_simp

lemma TrimSpace_abc: "TrimSpace ''abc'' = ''abc''"
  by code_simp

lemma ParseUint_50000: "ParseUint ''50000'' = Inr 50000"
  by code_simp

lemma ParseUint_100000: "ParseUint ''100000'' = Inr 100000"
  by code_simp

lemma ParseUint_0: "ParseUint ''0'' = Inr 0"
  by code_simp

lemma ParseUint_abc: "ParseUint ''abc'' = Inl ErrSyntax"
  by code_simp

section \<open>The cgroup CPU limit probe\<close>

text \<open>
  C3. When the trimmed content of the quota file is exactly "-1" (and the period file
  can be read), \<open>readCgroupCPULimit\<close> returns the absent value with no error, whatever
  the period file holds and whatever \<open>ParseFloat\<close> and the test for zero would say of
  it: the comparison with "-1" stands before both calls of \<open>ParseFloat\<close>.
\<close>

theorem cpu_quota_minus_one_is_unlimited:
  assumes "ReadFile sys ''/sys/fs/cgroup/cpu/cpu.cfs_quota_us'' = Inr quotaData"
    and "TrimSpace quotaData = ''-1''"
    and "ReadFile sys ''/sys/fs/cgroup/cpu/cpu.cfs_period_us'' = Inr periodData"
  shows "readCgroupCPULimit fl sys = Inr None"
  using assms by (simp add: readCgroupCPULimit_def readTrim_def)

text \<open>The period is zero in the first system and does not parse in the second.\<close>

theorem cpu_quota_minus_one_is_unlimited_witness:
  "readCgroupCPULimit decimal_ops
       (example_os (cpu_files (''-1'' @ [newline]) (''0'' @ [newline])) []) = Inr None
   \<and> ParseFloat decimal_ops (TrimSpace (''0'' @ [newline])) = Inr 0
   \<and> is_zero decimal_ops 0
   \<and> readCgroupCPULimit decimal_ops
       (example_os (cpu_files (''-1'' @ [newline]) ''abc'') []) = Inr None
   \<and> ParseFloat decimal_ops (TrimSpace ''abc'') = Inl ErrSyntax"
proof -
  have z: "ParseFloat decimal_ops (TrimSpace (''0'' @ [newline])) = Inr 0"
    unfolding TrimSpace_0 by (simp add: decimal_ops_def ParseUint_0)
  have a: "ParseFloat decimal_ops (TrimSpace ''abc'') = Inl ErrSyntax"
    unfolding TrimSpace_abc by (simp add: decimal_ops_def ParseUint_abc)
  have i: "is_zero decimal_ops 0"
    by (simp add: decimal_ops_def)
  show ?thesis
    using cpu_quota_minus_one_is_unlimited
        [OF ReadFile_cpu_files(1) TrimSpace_minus_one ReadFile_cpu_files(2), of decimal_ops]
      z a i
    by blast
qed

text \<open>
  C8. When the trimmed quota is not "-1" and both strings parse, a period that is zero
  makes the probe fail with the error \<open>ZeroPeriod\<close> ("cpu.cfs_period_us is zero"): no
  number at all is returned, so no infinity and no NaN. The quotient is computed only
  for a period that is not zero.
\<close>

theorem zero_period_is_an_error:
  assumes "ReadFile sys ''/sys/fs/cgroup/cpu/cpu.cfs_quota_us'' = Inr quotaData"
    and "TrimSpace quotaData \<noteq> ''-1''"
    and "ReadFile sys ''/sys/fs/cgroup/cpu/cpu.cfs_period_us'' = Inr periodData"
    and "ParseFloat fl (TrimSpace quotaData) = Inr quota"
    and "ParseFloat fl (TrimSpace periodData) = Inr period"
  shows "readCgroupCPULimit fl sys =
    (if is_zero fl period then Inl ZeroPeriod else Inr (Some (quo fl quota period)))"
  using assms by (simp add: readCgroupCPULimit_def readTrim_def)

theorem zero_period_is_an_error_witness:
  "readCgroupCPULimit decimal_ops
       (example_os (cpu_files (''50000'' @ [newline]) (''0'' @ [newline])) [])
     = Inl ZeroPeriod
   \<and> readCgroupCPULimit decimal_ops
       (example_os (cpu_files (''50000'' @ [newline]) (''100000'' @ [newline])) [])
     = Inr (Some (1 / 2))"
proof -
  have q: "TrimSpace (''50000'' @ [newline]) \<noteq> ''-1''"
    unfolding TrimSpace_50000 by simp
  have pq: "ParseFloat decimal_ops (TrimSpace (''50000'' @ [newline])) = Inr 50000"
    unfolding TrimSpace_50000 by (simp add: decimal_ops_def ParseUint_50000)
  have p0: "ParseFloat decimal_ops (TrimSpace (''0'' @ [newline])) = Inr 0"
    unfolding TrimSpace_0 by (simp add: decimal_ops_def ParseUint_0)
  have p1: "ParseFloat decimal_ops (TrimSpace (''100000'' @ [newline])) = Inr 100000"
    unfolding TrimSpace_100000 by (simp add: decimal_ops_def ParseUint_100000)
  have z: "is_zero decimal_ops 0" "\<not> is_zero decimal_ops 100000"
    "quo decimal_ops 50000 100000 = 1 / 2"
    by (simp_all add: decimal_ops_def)
  show ?thesis
    using zero_period_is_an_error [OF ReadFile_cpu_files(1) q ReadFile_cpu_files(2) pq p0]
      zero_period_is_an_error [OF ReadFile_cpu_files(1) q ReadFile_cpu_files(2) pq p1]
    by (simp only: z if_True if_False simp_thms)
qed

text \<open>
  C9. When the period file cannot be read, the probe returns that error, whatever the
  quota file holds, "-1" included: both files are read before the quota is compared
  with "-1".
\<close>

theorem unreadable_period_is_an_error:
  assumes "ReadFile sys ''/sys/fs/cgroup/cpu/cpu.cfs_quota_us'' = Inr quotaData"
    and "ReadFile sys ''/sys/fs/cgroup/cpu/cpu.cfs_period_us'' = Inl err"
  shows "readCgroupCPULimit fl sys = Inl err"
  using assms by (simp add: readCgroupCPULimit_def readTrim_def)

theorem unreadable_period_is_an_error_witness:
  "readTrim (example_os quota_only []) ''/sys/fs/cgroup/cpu/cpu.cfs_quota_us'' = Inr ''-1''
   \<and> readCgroupCPULimit decimal_ops (example_os quota_only []) = Inl ENOENT"
proof -
  have q: "ReadFile (example_os quota_only []) ''/sys/fs/cgroup/cpu/cpu.cfs_quota_us''
      = Inr (''-1'' @ [newline])"
    by (simp add: example_os_def quota_only_def files_def)
  have p: "ReadFile (example_os quota_only []) ''/sys/fs/cgroup/cpu/cpu.cfs_period_us'' = Inl ENOENT"
    by (simp add: example_os_def quota_only_def files_def)
  have r: "readTrim (example_os quota_only []) ''/sys/fs/cgroup/cpu/cpu.cfs_quota_us'' = Inr ''-1''"
    unfolding readTrim_def q by (simp only: sum.case TrimSpace_minus_one)
  show ?thesis
    using unreadable_period_is_an_error [OF q p, of decimal_ops] r by blast
qed

section \<open>The cgroup memory limit probe\<close>

text \<open>
  C4. If the limit file cannot be read, or its trimmed content does not parse as an
  unsigned 64-bit integer, the probe returns that error. If it parses to \<open>v\<close> (then
  \<open>v\<close> is the number the decimal digits denote), the probe returns the absent value
  with no error when \<open>v\<close> is at least 2^63 - 4096, and exactly \<open>v\<close> when it is below.
\<close>

theorem memory_limit_probe:
  "(ReadFile sys ''/sys/fs/cgroup/memory/memory.limit_in_bytes'' = Inl err
      \<longrightarrow> readCgroupMemoryLimit sys = Inl err)
   \<and> (ReadFile sys ''/sys/fs/cgroup/memory/memory.limit_in_bytes'' = Inr data
        \<and> ParseUint (TrimSpace data) = Inl err
      \<longrightarrow> readCgroupMemoryLimit sys = Inl err)
   \<and> (ReadFile sys ''/sys/fs/cgroup/memory/memory.limit_in_bytes'' = Inr data
        \<and> ParseUint (TrimSpace data) = Inr v
      \<longrightarrow> unat v = dec_val (TrimSpace data)
          \<and> readCgroupMemoryLimit sys =
              (if 2 ^ 63 - 4096 \<le> unat v then Inr None else Inr (Some v)))"
proof (intro conjI impI)
  assume "ReadFile sys ''/sys/fs/cgroup/memory/memory.limit_in_bytes'' = Inl err"
  then show "readCgroupMemoryLimit sys = Inl err"
    by (simp add: readCgroupMemoryLimit_def readTrim_def)
next
  assume "ReadFile sys ''/sys/fs/cgroup/memory/memory.limit_in_bytes'' = Inr data
    \<and> ParseUint (TrimSpace data) = Inl err"
  then show "readCgroupMemoryLimit sys = Inl err"
    by (simp add: readCgroupMemoryLimit_def readTrim_def)
next
  assume a: "ReadFile sys ''/sys/fs/cgroup/memory/memory.limit_in_bytes'' = Inr data
    \<and> ParseUint (TrimSpace data) = Inr v"
  then show "unat v = dec_val (TrimSpace data)"
    by (simp add: ParseUint_unat)
  show "readCgroupMemoryLimit sys = (if 2 ^ 63 - 4096 \<le> unat v then Inr None else Inr (Some v))"
    using a by (simp add: readCgroupMemoryLimit_def readTrim_def word_le_nat_alt
        unlimitedThreshold_val)
qed

theorem memory_limit_probe_witness:
  "readCgroupMemoryLimit (example_os [] []) = Inl ENOENT
   \<and> readCgroupMemoryLimit (example_os (mem_files ''max'') []) = Inl ErrSyntax
   \<and> readCgroupMemoryLimit (example_os (mem_files ''18446744073709551616'') []) = Inl ErrRange
   \<and> readCgroupMemoryLimit (example_os (mem_files (''9223372036854771712'' @ [newline])) []) = Inr None
   \<and> readCgroupMemoryLimit (example_os (mem_files (''9223372036854771711'' @ [newline])) [])
       = Inr (Some 9223372036854771711)"
proof -
  have r0: "ReadFile (example_os [] []) ''/sys/fs/cgroup/memory/memory.limit_in_bytes'' = Inl ENOENT"
    by (simp add: example_os_def files_def)
  have p1: "ParseUint (TrimSpace ''max'') = Inl ErrSyntax" by code_simp
  have p2: "ParseUint (TrimSpace ''18446744073709551616'') = Inl ErrRange" by code_simp
  have p3: "ParseUint (TrimSpace (''9223372036854771712'' @ [newline])) = Inr 9223372036854771712"
    by code_simp
  have p4: "ParseUint (TrimSpace (''9223372036854771711'' @ [newline])) = Inr 9223372036854771711"
    by code_simp
  have u3: "(2 :: nat) ^ 63 - 4096 \<le> unat (9223372036854771712 :: uint64)" by simp
  have u4: "\<not> (2 :: nat) ^ 63 - 4096 \<le> unat (9223372036854771711 :: uint64)" by simp
  note t = memory_limit_probe
  have w0: "readCgroupMemoryLimit (example_os [] []) = Inl ENOENT"
    using t [of "example_os [] []" ENOENT] r0 by blast
  have w1: "readCgroupMemoryLimit (example_os (mem_files ''max'') []) = Inl ErrSyntax"
    using t [of "example_os (mem_files ''max'') []" ErrSyntax "''max''"] p1 ReadFile_mem_files
    by blast
  have w2: "readCgroupMemoryLimit (example_os (mem_files ''18446744073709551616'') []) = Inl ErrRange"
    using t [of "example_os (mem_files ''18446744073709551616'') []" ErrRange
        "''18446744073709551616''"] p2 ReadFile_mem_files
    by blast
  have "readCgroupMemoryLimit (example_os (mem_files (''9223372036854771712'' @ [newline])) []) =
      (if 2 ^ 63 - 4096 \<le> unat (9223372036854771712 :: uint64) then Inr None
       else Inr (Some 9223372036854771712))"
    using t [of "example_os (mem_files (''9223372036854771712'' @ [newline])) []" ENOENT
        "''9223372036854771712'' @ [newline]" 9223372036854771712] p3 ReadFile_mem_files
    by blast
  then have w3: "readCgroupMemoryLimit
      (example_os (mem_files (''9223372036854771712'' @ [newline])) []) = Inr None"
    using u3 by (simp only: if_True)
  have "readCgroupMemoryLimit (example_os (mem_files (''9223372036854771711'' @ [newline])) []) =
      (if 2 ^ 63 - 4096 \<le> unat (9223372036854771711 :: uint64) then Inr None
       else Inr (Some 9223372036854771711))"
    using t [of "example_os (mem_files (''9223372036854771711'' @ [newline])) []" ENOENT
        "''9223372036854771711'' @ [newline]" 9223372036854771711] p4 ReadFile_mem_files
    by blast
  then have w4: "readCgroupMemoryLimit
      (example_os (mem_files (''9223372036854771711'' @ [newline])) [])
       = Inr (Some 9223372036854771711)"
    using u4 by (simp only: if_False)
  from w0 w1 w2 w3 w4 show ?thesis by blast
qed

section \<open>Properties of the scanner\<close>
















lemma getRSS_loop_skip:
  "\<forall>l \<in> set pre. \<not> HasPrefix l ''VmRSS:'' \<Longrightarrow> getRSS_loop (pre @ ls) = getRSS_loop ls"
  by (induction pre) simp_all


lemma getRSS_first:
  assumes "ReadFile sys ''/proc/self/status'' = Inr data"
    and "Split data newline = pre @ line # post"
    and "\<forall>l \<in> set pre. \<not> HasPrefix l ''VmRSS:''"
    and "HasPrefix line ''VmRSS:''"
  shows "getRSS sys = Inr (case Sscanf_d ''VmRSS:'' line of Some rss \<Rightarrow> rss | None \<Rightarrow> 0)"
  using assms by (simp add: getRSS_def getRSS_loop_skip)

lemma ParseInt_signed:
  assumes ne: "ds \<noteq> []" and dg: "\<forall>c \<in> set ds. is_digit c"
    and sg: "sn = [] \<or> sn = ''+'' \<or> sn = ''-''"
  shows "ParseInt (sn @ ds) =
    (if sn = ''-''
     then (if 2 ^ 63 < dec_val ds then Inl ErrRange else Inr (- int (dec_val ds)))
     else (if 2 ^ 63 \<le> dec_val ds then Inl ErrRange else Inr (int (dec_val ds))))"
proof -
  have hd_digit: "is_digit (hd ds)"
    using ne dg by (cases ds) auto
  then have nosign: "hd ds \<noteq> CHR ''-''" "hd ds \<noteq> CHR ''+''"
    by (auto simp: is_digit_def)
  have pu: "ParseUint ds =
      (if dec_val ds < 2 ^ 64 then Inr (of_nat (dec_val ds)) else Inl ErrRange)"
    using ne dg by (rule ParseUint_digits)
  show ?thesis
  proof (cases "dec_val ds < 2 ^ 64")
    case True
    have u: "unat (of_nat (dec_val ds) :: uint64) = dec_val ds"
      using True by (simp add: unat_of_nat)
    have ui: "uint (of_nat (dec_val ds) :: uint64) = int (dec_val ds)"
      using u by (metis of_nat_unat)
    have le: "push_bit 63 1 \<le> (of_nat (dec_val ds) :: uint64) \<longleftrightarrow> 2 ^ 63 \<le> dec_val ds"
      by (simp add: word_le_nat_alt u)
    have lt: "push_bit 63 1 < (of_nat (dec_val ds) :: uint64) \<longleftrightarrow> 2 ^ 63 < dec_val ds"
      by (simp add: word_less_nat_alt u)
    have p: "ParseUint ds = Inr (of_nat (dec_val ds))"
      using pu True by simp
    show ?thesis
      using sg ne nosign le lt ui by (auto simp: ParseInt_def Let_def p)
  next
    case False
    have big: "2 ^ 63 < dec_val ds" "2 ^ 63 \<le> dec_val ds"
      using False by simp_all
    have m: "maxUint64 = (18446744073709551615 :: uint64)"
      by (simp add: maxUint64_def)
    have le: "push_bit 63 1 \<le> maxUint64" and lt: "push_bit 63 1 < maxUint64"
      unfolding m by simp_all
    have p: "ParseUint ds = Inl ErrRange"
      using pu False by simp
    show ?thesis
      using sg ne nosign big le lt by (auto simp: ParseInt_def Let_def p)
  qed
qed


lemma Split_no_sep: "l \<in> set (Split s sep) \<Longrightarrow> sep \<notin> set l"
proof (induction s arbitrary: l)
  case Nil
  then show ?case by simp
next
  case (Cons c cs)
  show ?case
  proof (cases "Split cs sep")
    case Nil
    then show ?thesis using Cons.prems by (auto split: if_splits)
  next
    case (Cons x xs)
    then have "sep \<notin> set x" and "\<forall>y \<in> set xs. sep \<notin> set y"
      using Cons.IH by simp_all
    then show ?thesis
      using Cons.prems Cons by (auto split: if_splits)
  qed
qed

lemma Sscanf_d_scan:
  assumes "newline \<notin> set rest"
  shows "Sscanf_d label (label @ rest) =
    (if no_integer rest then None else Some (scanned_int rest))"
proof -
  define body where "body = trimLeftSpace rest"
  define ds where "ds = digits_of body"
  have nl: "newline \<notin> set (take (length rest - length body) rest)"
    using assms by (auto dest: in_set_takeD)
  show ?thesis
  proof (cases "(rest \<noteq> [] \<and> leading_space rest = None) \<or> body = [] \<or> ds = []")
    case True
    then have "no_integer rest"
      by (auto simp: no_integer_def Let_def body_def ds_def)
    moreover have "Sscanf_d label (label @ rest) = None"
      using True nl
      by (auto simp: Sscanf_d_def Let_def body_def ds_def digits_of_def sign_of_def)
    ultimately show ?thesis by simp
  next
    case False
    then have ok: "rest = [] \<or> leading_space rest \<noteq> None" "body \<noteq> []" "ds \<noteq> []"
      by auto
    have dg: "\<forall>c \<in> set ds. is_digit c"
      by (auto simp: ds_def digits_of_def dest: set_takeWhileD)
    have sg: "sign_of body = [] \<or> sign_of body = ''+'' \<or> sign_of body = ''-''"
      by (auto simp: sign_of_def)
    note p = ParseInt_signed [OF ok(3) dg sg]
    have s: "Sscanf_d label (label @ rest) =
        (case ParseInt (sign_of body @ ds) of Inl err \<Rightarrow> None | Inr i \<Rightarrow> Some i)"
      using ok nl
      by (auto simp: Sscanf_d_def Let_def body_def ds_def digits_of_def sign_of_def)
    show ?thesis
      unfolding s p using False
      by (auto simp: no_integer_def scanned_int_def Let_def body_def ds_def)
  qed
qed

lemma no_integer_no_space: "rest \<noteq> [] \<Longrightarrow> leading_space rest = None \<Longrightarrow> no_integer rest"
  by (simp add: no_integer_def Let_def)

lemma no_integer_end: "trimLeftSpace rest = [] \<Longrightarrow> no_integer rest"
  by (simp add: no_integer_def Let_def)

lemma no_integer_no_digit: "digits_of (trimLeftSpace rest) = [] \<Longrightarrow> no_integer rest"
  by (simp add: no_integer_def Let_def)

lemma no_integer_range:
  "sign_of (trimLeftSpace rest) \<noteq> ''-'' \<Longrightarrow> digits_of (trimLeftSpace rest) = ds
     \<Longrightarrow> 2 ^ 63 \<le> dec_val ds \<Longrightarrow> no_integer rest"
  by (simp add: no_integer_def Let_def)

lemma no_integer_examples:
  "no_integer []"
  "no_integer ''4096 kB''"
  "no_integer ([tab] @ ''   x kB'')"
  "no_integer (''   '' @ [tab])"
  "no_integer '' - kB''"
  "no_integer '' 9223372036854775808 kB''"
proof -
  show "no_integer []"
    by (rule no_integer_end) code_simp
  show "no_integer ''4096 kB''"
    by (rule no_integer_no_space) code_simp+
  show "no_integer ([tab] @ ''   x kB'')"
    by (rule no_integer_no_digit) code_simp
  show "no_integer (''   '' @ [tab])"
    by (rule no_integer_end) code_simp
  show "no_integer '' - kB''"
    by (rule no_integer_no_digit) code_simp
  have s: "sign_of (trimLeftSpace '' 9223372036854775808 kB'') \<noteq> ''-''"
    by code_simp
  have d: "digits_of (trimLeftSpace '' 9223372036854775808 kB'') = ''9223372036854775808''"
    by code_simp
  have v: "2 ^ 63 \<le> dec_val ''9223372036854775808''"
    by (simp add: dec_val_def digit_val_def)
  show "no_integer '' 9223372036854775808 kB''"
    using s d v by (rule no_integer_range)
qed

lemma Split_one_line:
  "Split ''VmRSS:'' newline = [] @ (''VmRSS:'' @ []) # []"
  "Split ''VmRSS:4096 kB'' newline = [] @ (''VmRSS:'' @ ''4096 kB'') # []"
  "Split (''VmRSS:'' @ [tab] @ ''   x kB'') newline = [] @ (''VmRSS:'' @ [tab] @ ''   x kB'') # []"
  "Split (''VmRSS:   '' @ [tab]) newline = [] @ (''VmRSS:'' @ ''   '' @ [tab]) # []"
  "Split ''VmRSS: - kB'' newline = [] @ (''VmRSS:'' @ '' - kB'') # []"
  "Split ''VmRSS: 9223372036854775808 kB'' newline
     = [] @ (''VmRSS:'' @ '' 9223372036854775808 kB'') # []"
  by code_simp+

section \<open>The resident memory probe\<close>

lemma ReadFile_status:
  "ReadFile (example_os (status_file data) []) ''/proc/self/status'' = Inr data"
  by (simp add: example_os_def status_file_def files_def)

text \<open>The line as the kernel writes it, with a tab and blanks after the label.\<close>

lemma getRSS_status_proc: "getRSS (example_os (status_file status_proc) []) = Inr 4096"
  by code_simp




text \<open>
  C10, as the code has it. When the first line with the prefix "VmRSS:" holds no
  integer where the pattern expects one (the label is followed by a character that is
  no white space; or, after the label and any run of white space, the line ends, or no
  digit follows the optional sign, or the digits denote a number outside the range of
  \<open>int\<close>), \<open>getRSS\<close> returns 0 with no error.
\<close>

theorem getRSS_no_number_reads_zero:
  assumes "ReadFile sys ''/proc/self/status'' = Inr data"
    and "Split data newline = pre @ (''VmRSS:'' @ rest) # post"
    and "\<forall>l \<in> set pre. \<not> HasPrefix l ''VmRSS:''"
    and "no_integer rest"
  shows "getRSS sys = Inr 0"
proof -
  have "''VmRSS:'' @ rest \<in> set (Split data newline)"
    using assms(2) by simp
  then have "newline \<notin> set (''VmRSS:'' @ rest)"
    by (rule Split_no_sep)
  then have "newline \<notin> set rest"
    by simp
  from Sscanf_d_scan [OF this, of "''VmRSS:''"] assms(4)
  have "Sscanf_d ''VmRSS:'' (''VmRSS:'' @ rest) = None"
    by (simp only: if_True)
  moreover have "HasPrefix (''VmRSS:'' @ rest) ''VmRSS:''"
    by (simp add: HasPrefix_def)
  ultimately show ?thesis
    using getRSS_first [OF assms(1) assms(2) assms(3)] by simp
qed

text \<open>
  The lines of the examples: the label alone; no white space after the label; a tab
  and blanks before a letter; white space only; a sign without a digit; 2^63.
\<close>

theorem getRSS_no_number_reads_zero_witness:
  "getRSS (example_os (status_file ''VmRSS:'') []) = Inr 0
   \<and> getRSS (example_os (status_file ''VmRSS:4096 kB'') []) = Inr 0
   \<and> getRSS (example_os (status_file (''VmRSS:'' @ [tab] @ ''   x kB'')) []) = Inr 0
   \<and> getRSS (example_os (status_file (''VmRSS:   '' @ [tab])) []) = Inr 0
   \<and> getRSS (example_os (status_file ''VmRSS: - kB'') []) = Inr 0
   \<and> getRSS (example_os (status_file ''VmRSS: 9223372036854775808 kB'') []) = Inr 0"
proof -
  have e: "\<forall>l \<in> set ([] :: string list). \<not> HasPrefix l ''VmRSS:''" by simp
  note t = getRSS_no_number_reads_zero
  have 1: "getRSS (example_os (status_file ''VmRSS:'') []) = Inr 0"
    by (rule t [OF ReadFile_status Split_one_line(1) e no_integer_examples(1)])
  have 2: "getRSS (example_os (status_file ''VmRSS:4096 kB'') []) = Inr 0"
    by (rule t [OF ReadFile_status Split_one_line(2) e no_integer_examples(2)])
  have 3: "getRSS (example_os (status_file (''VmRSS:'' @ [tab] @ ''   x kB'')) []) = Inr 0"
    by (rule t [OF ReadFile_status Split_one_line(3) e no_integer_examples(3)])
  have 4: "getRSS (example_os (status_file (''VmRSS:   '' @ [tab])) []) = Inr 0"
    by (rule t [OF ReadFile_status Split_one_line(4) e no_integer_examples(4)])
  have 5: "getRSS (example_os (status_file ''VmRSS: - kB'') []) = Inr 0"
    by (rule t [OF ReadFile_status Split_one_line(5) e no_integer_examples(5)])
  have 6: "getRSS (example_os (status_file ''VmRSS: 9223372036854775808 kB'') []) = Inr 0"
    by (rule t [OF ReadFile_status Split_one_line(6) e no_integer_examples(6)])
  from 1 2 3 4 5 6 show ?thesis by blast
qed

text \<open>
  C10 as it is stated fails: the line below has the prefix and does not match the
  pattern (it does not end in " kB"), yet the probe returns 5, not 0: \<open>Sscanf\<close> stores
  the integer before it fails on the rest of the pattern.
\<close>

theorem getRSS_pattern_mismatch_counterexample:
  "HasPrefix ''VmRSS: 5 MB'' ''VmRSS:'' \<and> \<not> suffix '' kB'' ''VmRSS: 5 MB''
   \<and> getRSS (example_os (status_file ''VmRSS: 5 MB'') []) = Inr 5"
  by code_simp

section \<open>The disk probe\<close>

lemma Fields_Nil: "Fields [] = []"
  by (simp add: Fields_def Fields_from.simps [of "[]" "[]"])

lemma getDisksInfo_loop_eq:
  "getDisksInfo_loop sys lines disks =
     disks @ map (spec_entry sys) (filter (spec_reported sys) lines)"
proof (induction lines arbitrary: disks)
  case Nil
  show ?case by simp
next
  case (Cons line lines)
  show ?case
  proof (cases "Statfs sys (Fields line ! 1)")
    case (Inl err)
    then show ?thesis
      by (simp add: Cons.IH spec_reported_def Let_def Fields_Nil)
  next
    case (Inr stat)
    then show ?thesis
      by (auto simp: Cons.IH spec_reported_def spec_entry_def pseudo_fs_def Let_def Fields_Nil)
  qed
qed

lemma getDisksInfo_eq:
  "ReadFile sys ''/proc/mounts'' = Inr data \<Longrightarrow>
     getDisksInfo sys = Inr (map (spec_entry sys) (filter (spec_reported sys) (Split data newline)))"
  by (simp add: getDisksInfo_def getDisksInfo_loop_eq)


lemma ReadFile_mounts:
  "ReadFile (example_os (mounts_file data) mounted) ''/proc/mounts'' = Inr data"
  by (simp add: example_os_def mounts_file_def files_def)

lemma getDisksInfo_example:
  "getDisksInfo (example_os (mounts_file mounts_example) mounted_example) =
     Inr [\<lparr>Mountpoint = ''/'', FSType = ''ext4'', Total = 4096000000, Free = 1024000000\<rparr>,
          \<lparr>Mountpoint = ''/x'', FSType = ''sysfsx'', Total = 4096, Free = 1024\<rparr>]"
  by code_simp




text \<open>
  C6, as the code has it. When the mounts table can be read, \<open>getDisksInfo\<close> returns a
  list and no error. A line with fewer than three fields adds nothing, and neither
  does a line whose statistics call fails. Of the other lines, exactly those whose
  type is "proc", "sysfs" or "cgroup" (compared as whole strings) are left out. The
  entries stand in the order of their lines.
\<close>

theorem getDisksInfo_filter:
  assumes "ReadFile sys ''/proc/mounts'' = Inr data"
  shows "getDisksInfo sys =
     Inr (map (spec_entry sys) (filter (spec_reported sys) (Split data newline)))"
  using assms by (rule getDisksInfo_eq)

text \<open>
  The example table has a proc and a sysfs mount (left out), a line of two fields
  (skipped), a mount of type "sysfsx" (reported) and a mount whose statistics call
  fails (left out).
\<close>

theorem getDisksInfo_filter_witness:
  "map (spec_entry (example_os (mounts_file mounts_example) mounted_example))
     (filter (spec_reported (example_os (mounts_file mounts_example) mounted_example))
        (Split mounts_example newline))
   = [\<lparr>Mountpoint = ''/'', FSType = ''ext4'', Total = 4096000000, Free = 1024000000\<rparr>,
      \<lparr>Mountpoint = ''/x'', FSType = ''sysfsx'', Total = 4096, Free = 1024\<rparr>]"
  using getDisksInfo_filter [OF ReadFile_mounts, of mounts_example mounted_example]
    getDisksInfo_example
  by simp

text \<open>
  C6 as it is stated fails: a mount of type "ext4" is left out when its statistics
  call fails.
\<close>

theorem getDisksInfo_type_only_counterexample:
  "Fields ''/dev/sdb1 /gone ext4 rw 0 0'' = [''/dev/sdb1'', ''/gone'', ''ext4'', ''rw'', ''0'', ''0'']
   \<and> getDisksInfo (example_os (mounts_file ''/dev/sdb1 /gone ext4 rw 0 0'') []) = Inr []"
  by code_simp



section \<open>The collector\<close>

lemma collect_continues:
  assumes "countFDs sys = Inr fds" and "getRSS sys = Inr vmrss"
  shows "collect fl sys =
    (printed ''Path getting error:'' (getBinPath sys)
       @ printed ''CPU info getting error:'' (getCPUInfo sys)
       @ printed ''Mem info getting error:'' (getMemInfo sys)
       @ printed ''Disk info getting error:'' (getDisksInfo sys)
       @ printed ''cgroup memory limit error:'' (readCgroupMemoryLimit sys)
       @ printed ''cgroup CPU limit error:'' (readCgroupCPULimit fl sys),
     Some \<lparr>FDCount = fds, VmRSS = vmrss,
           ExePath = value_or [] (getBinPath sys),
           CPUModel = fst (value_or ([], 0) (getCPUInfo sys)),
           CPUCores = snd (value_or ([], 0) (getCPUInfo sys)),
           MemTotal = value_or 0 (getMemInfo sys),
           Mounts = value_or [] (getDisksInfo sys),
           CgroupV1 = Some \<lparr>MemoryLimitBytes = value_or None (readCgroupMemoryLimit sys),
                             CPULimitCores = value_or None (readCgroupCPULimit fl sys)\<rparr>\<rparr>)"
  using assms
  by (simp add: collect_def printed_def value_or_def split: sum.splits prod.splits)

lemma status_os_probes:
  "countFDs status_os = Inr 3"
  "getRSS status_os = Inr 4096"
  "getBinPath status_os = Inr ''/usr/bin/sysinfo''"
  "getCPUInfo status_os = Inl ENOENT"
  "getMemInfo status_os = Inl ENOENT"
  "getDisksInfo status_os = Inl ENOENT"
  "readCgroupMemoryLimit status_os = Inl ENOENT"
  "readCgroupCPULimit decimal_ops status_os = Inl ENOENT"
  by code_simp+

lemma main_always_writes_cgroup_v1:
  assumes "collect fl sys = (out, Some info)"
  shows "CgroupV1 info \<noteq> None"
  using assms
  by (auto simp: collect_def Let_def split: sum.splits prod.splits)

text \<open>
  C2, as the code has it. When \<open>countFDs\<close> or \<open>getRSS\<close> fails, the run prints that one
  error and ends: no table and no document. When both succeed, every other probe that
  fails has its error printed, in the order of the probes, to standard output (as the
  two fatal ones are; nothing goes to standard error), and its field of the snapshot
  keeps the zero value; the run goes on to the table, or to the document when the
  snapshot can be encoded.
\<close>

theorem main_probe_failures:
  "(\<forall>err. countFDs sys = Inl err \<longrightarrow>
      main fl sys js =
        \<lparr>Stdout = [ErrorLine (''FDs counting error:'' @ [tab]) err], Stderr = [], ExitCode = 0\<rparr>)
   \<and> (\<forall>fds err. countFDs sys = Inr fds \<and> getRSS sys = Inl err \<longrightarrow>
      main fl sys js =
        \<lparr>Stdout = [ErrorLine (''VmRRS getting error:'' @ [tab]) err], Stderr = [], ExitCode = 0\<rparr>)
   \<and> (\<forall>fds vmrss. countFDs sys = Inr fds \<and> getRSS sys = Inr vmrss \<longrightarrow>
      (\<exists>out info. collect fl sys = (out, Some info)
         \<and> out = printed ''Path getting error:'' (getBinPath sys)
                @ printed ''CPU info getting error:'' (getCPUInfo sys)
                @ printed ''Mem info getting error:'' (getMemInfo sys)
                @ printed ''Disk info getting error:'' (getDisksInfo sys)
                @ printed ''cgroup memory limit error:'' (readCgroupMemoryLimit sys)
                @ printed ''cgroup CPU limit error:'' (readCgroupCPULimit fl sys)
         \<and> info = \<lparr>FDCount = fds, VmRSS = vmrss,
                    ExePath = value_or [] (getBinPath sys),
                    CPUModel = fst (value_or ([], 0) (getCPUInfo sys)),
                    CPUCores = snd (value_or ([], 0) (getCPUInfo sys)),
                    MemTotal = value_or 0 (getMemInfo sys),
                    Mounts = value_or [] (getDisksInfo sys),
                    CgroupV1 = Some \<lparr>MemoryLimitBytes = value_or None (readCgroupMemoryLimit sys),
                                      CPULimitCores = value_or None (readCgroupCPULimit fl sys)\<rparr>\<rparr>
         \<and> main fl sys False =
              \<lparr>Stdout = out @ [TableText (table fl info)], Stderr = [], ExitCode = 0\<rparr>
         \<and> (\<forall>doc. marshal_SysInfo fl info = Inr doc \<longrightarrow>
               main fl sys True =
                 \<lparr>Stdout = out @ [JSONText doc], Stderr = [], ExitCode = 0\<rparr>)))"
proof (intro conjI allI impI)
  fix err
  assume "countFDs sys = Inl err"
  then show "main fl sys js =
      \<lparr>Stdout = [ErrorLine (''FDs counting error:'' @ [tab]) err], Stderr = [], ExitCode = 0\<rparr>"
    by (simp add: main_def collect_def)
next
  fix fds err
  assume "countFDs sys = Inr fds \<and> getRSS sys = Inl err"
  then show "main fl sys js =
      \<lparr>Stdout = [ErrorLine (''VmRRS getting error:'' @ [tab]) err], Stderr = [], ExitCode = 0\<rparr>"
    by (simp add: main_def collect_def)
next
  fix fds vmrss
  assume "countFDs sys = Inr fds \<and> getRSS sys = Inr vmrss"
  then have c: "countFDs sys = Inr fds" and r: "getRSS sys = Inr vmrss"
    by simp_all
  note collect_continues [OF c r, of fl]
  then show "\<exists>out info. collect fl sys = (out, Some info)
         \<and> out = printed ''Path getting error:'' (getBinPath sys)
                @ printed ''CPU info getting error:'' (getCPUInfo sys)
                @ printed ''Mem info getting error:'' (getMemInfo sys)
                @ printed ''Disk info getting error:'' (getDisksInfo sys)
                @ printed ''cgroup memory limit error:'' (readCgroupMemoryLimit sys)
                @ printed ''cgroup CPU limit error:'' (readCgroupCPULimit fl sys)
         \<and> info = \<lparr>FDCount = fds, VmRSS = vmrss,
                    ExePath = value_or [] (getBinPath sys),
                    CPUModel = fst (value_or ([], 0) (getCPUInfo sys)),
                    CPUCores = snd (value_or ([], 0) (getCPUInfo sys)),
                    MemTotal = value_or 0 (getMemInfo sys),
                    Mounts = value_or [] (getDisksInfo sys),
                    CgroupV1 = Some \<lparr>MemoryLimitBytes = value_or None (readCgroupMemoryLimit sys),
                                      CPULimitCores = value_or None (readCgroupCPULimit fl sys)\<rparr>\<rparr>
         \<and> main fl sys False =
              \<lparr>Stdout = out @ [TableText (table fl info)], Stderr = [], ExitCode = 0\<rparr>
         \<and> (\<forall>doc. marshal_SysInfo fl info = Inr doc \<longrightarrow>
               main fl sys True =
                 \<lparr>Stdout = out @ [JSONText doc], Stderr = [], ExitCode = 0\<rparr>)"
    by (simp add: main_def)
qed

theorem main_probe_failures_witness:
  "main decimal_ops no_fd_os True =
     \<lparr>Stdout = [ErrorLine (''FDs counting error:'' @ [tab]) ENOENT], Stderr = [], ExitCode = 0\<rparr>
   \<and> main decimal_ops (example_os [] []) False =
     \<lparr>Stdout = [ErrorLine (''VmRRS getting error:'' @ [tab]) ENOENT], Stderr = [], ExitCode = 0\<rparr>
   \<and> collect decimal_ops status_os = (status_errors, Some status_info)
   \<and> main decimal_ops status_os False =
     \<lparr>Stdout = status_errors @ [TableText (table decimal_ops status_info)], Stderr = [],
      ExitCode = 0\<rparr>"
proof -
  note t = main_probe_failures
  have f1: "countFDs no_fd_os = Inl ENOENT"
    by (simp add: countFDs_def no_fd_os_def)
  have f2: "countFDs (example_os [] []) = Inr 3 \<and> getRSS (example_os [] []) = Inl ENOENT"
    by (simp add: countFDs_def getRSS_def example_os_def files_def)
  have w1: "main decimal_ops no_fd_os True =
     \<lparr>Stdout = [ErrorLine (''FDs counting error:'' @ [tab]) ENOENT], Stderr = [], ExitCode = 0\<rparr>"
    using t [of no_fd_os decimal_ops True] f1 by blast
  have w2: "main decimal_ops (example_os [] []) False =
     \<lparr>Stdout = [ErrorLine (''VmRRS getting error:'' @ [tab]) ENOENT], Stderr = [], ExitCode = 0\<rparr>"
    using t [of "example_os [] []" decimal_ops False] f2 by blast
  from t [of status_os decimal_ops False] status_os_probes(1,2)
  obtain out info where c: "collect decimal_ops status_os = (out, Some info)"
    and o: "out = printed ''Path getting error:'' (getBinPath status_os)
                @ printed ''CPU info getting error:'' (getCPUInfo status_os)
                @ printed ''Mem info getting error:'' (getMemInfo status_os)
                @ printed ''Disk info getting error:'' (getDisksInfo status_os)
                @ printed ''cgroup memory limit error:'' (readCgroupMemoryLimit status_os)
                @ printed ''cgroup CPU limit error:'' (readCgroupCPULimit decimal_ops status_os)"
    and i: "info = \<lparr>FDCount = 3, VmRSS = 4096,
                    ExePath = value_or [] (getBinPath status_os),
                    CPUModel = fst (value_or ([], 0) (getCPUInfo status_os)),
                    CPUCores = snd (value_or ([], 0) (getCPUInfo status_os)),
                    MemTotal = value_or 0 (getMemInfo status_os),
                    Mounts = value_or [] (getDisksInfo status_os),
                    CgroupV1 = Some \<lparr>MemoryLimitBytes = value_or None (readCgroupMemoryLimit status_os),
                                      CPULimitCores = value_or None (readCgroupCPULimit decimal_ops status_os)\<rparr>\<rparr>"
    and m: "main decimal_ops status_os False =
              \<lparr>Stdout = out @ [TableText (table decimal_ops info)], Stderr = [], ExitCode = 0\<rparr>"
    by blast
  have o': "out = status_errors"
    unfolding o status_os_probes by (simp add: printed_def status_errors_def)
  have i': "info = status_info"
    unfolding i status_os_probes by (simp add: value_or_def status_info_def)
  from w1 w2 c m show ?thesis
    unfolding o' i' by blast
qed

text \<open>
  C2 as it is stated fails: the error of a probe that is not fatal is written to
  standard output, before the report, and standard error stays empty.
\<close>

theorem main_error_stream_counterexample:
  "readCgroupMemoryLimit status_os = Inl ENOENT
   \<and> ErrorLine (''cgroup memory limit error:'' @ [tab]) ENOENT
       \<in> set (Stdout (main decimal_ops status_os True))
   \<and> Stderr (main decimal_ops status_os True) = []"
  by code_simp

section \<open>The JSON document\<close>

lemma unmarshal_uint64_JUint [simp]: "unmarshal_uint64 (JUint u) = Inr u"
  by (simp add: unmarshal_uint64_def)

lemma unmarshal_DiskInfo_marshal:
  "ValidString (Mountpoint d) \<Longrightarrow> ValidString (FSType d) \<Longrightarrow>
     unmarshal_DiskInfo (marshal_DiskInfo d) = Inr d"
  by (simp add: unmarshal_DiskInfo_def marshal_DiskInfo_def field_def unmarshal_string_def
      ValidString_def)

lemma unmarshal_each_marshal:
  "list_all (\<lambda>d. ValidString (Mountpoint d) \<and> ValidString (FSType d)) ds \<Longrightarrow>
     unmarshal_each unmarshal_DiskInfo (map marshal_DiskInfo ds) = Inr ds"
  by (induction ds) (simp_all add: unmarshal_DiskInfo_marshal)

lemma unmarshal_Mounts_marshal:
  "list_all (\<lambda>d. ValidString (Mountpoint d) \<and> ValidString (FSType d)) ds \<Longrightarrow>
     unmarshal_Mounts (if ds = [] then JNull else JArray (map marshal_DiskInfo ds)) = Inr ds"
  by (simp add: unmarshal_Mounts_def unmarshal_each_marshal)

lemma unmarshal_CgroupV1_marshal:
  assumes "marshal_CgroupV1 fl c = Inr j"
  shows "unmarshal_CgroupV1_ptr j = Inr (Some c)"
  using assms
  by (cases c)
    (auto simp: marshal_CgroupV1_def unmarshal_CgroupV1_ptr_def field_def
      unmarshal_uint64_ptr_def unmarshal_float64_ptr_def split: option.splits if_splits)

lemma marshal_CgroupV1_keys:
  assumes "marshal_CgroupV1 fl c = Inr j"
  shows "\<exists>cg. j = JObject cg
    \<and> map fst cg = (case MemoryLimitBytes c of None \<Rightarrow> [] | Some m \<Rightarrow> [''memory_limit_bytes''])
                   @ (case CPULimitCores c of None \<Rightarrow> [] | Some x \<Rightarrow> [''cpu_limit_cores''])
    \<and> JNull \<notin> snd ` set cg"
  using assms
  by (auto simp: marshal_CgroupV1_def split: option.splits if_splits)

lemma marshal_CgroupV1_ok:
  "(case CPULimitCores c of None \<Rightarrow> True | Some x \<Rightarrow> \<not> is_inf_or_nan fl x) \<Longrightarrow>
     \<exists>j. marshal_CgroupV1 fl c = Inr j"
  by (auto simp: marshal_CgroupV1_def split: option.splits)

lemma unmarshal_SysInfo_fields:
  assumes "int64_range a" and "int64_range b" and "int64_range c" and "int64_range d"
    and "unmarshal_Mounts mj = Inr ds"
    and "cgl = [] \<and> cg = None \<or> (\<exists>j. cgl = [(''cgroup_v1'', j)] \<and> unmarshal_CgroupV1_ptr j = Inr cg)"
  shows "unmarshal_SysInfo
      (JObject ([(''fd_count'', JInt a), (''vmrss_bytes'', JInt b), (''exe_path'', JString p),
                 (''cpu_model'', JString m), (''cpu_cores'', JInt c), (''mem_total_kb'', JInt d),
                 (''mounts'', mj)] @ cgl))
    = Inr \<lparr>FDCount = a, VmRSS = b, ExePath = p, CPUModel = m, CPUCores = c, MemTotal = d,
           Mounts = ds, CgroupV1 = cg\<rparr>"
  using assms
  by (auto simp: unmarshal_SysInfo_def field_def unmarshal_int_def unmarshal_string_def
      unmarshal_CgroupV1_ptr_def)

lemma marshal_SysInfo_eq:
  "marshal_SysInfo fl info =
     (case (case CgroupV1 info of None \<Rightarrow> Inr []
            | Some c \<Rightarrow> (case marshal_CgroupV1 fl c of Inl err \<Rightarrow> Inl err
                          | Inr j \<Rightarrow> Inr [(''cgroup_v1'', j)])) of
        Inl err \<Rightarrow> Inl err
      | Inr cgl \<Rightarrow>
          Inr (JObject ([(''fd_count'', JInt (FDCount info)), (''vmrss_bytes'', JInt (VmRSS info)),
                 (''exe_path'', JString (toValidUTF8 (ExePath info))),
                 (''cpu_model'', JString (toValidUTF8 (CPUModel info))),
                 (''cpu_cores'', JInt (CPUCores info)), (''mem_total_kb'', JInt (MemTotal info)),
                 (''mounts'', if Mounts info = [] then JNull
                              else JArray (map marshal_DiskInfo (Mounts info)))] @ cgl)))"
  by (simp add: marshal_SysInfo_def Let_def split: option.splits sum.splits)

lemma encodable_examples:
  "encodable decimal_ops full_info"
  "encodable decimal_ops bare_info"
  "encodable decimal_ops status_info"
  by code_simp+

text \<open>
  C1, as the code has it. A snapshot whose strings are valid UTF-8 and whose CPU limit
  is finite is written as an object with the keys fd_count, vmrss_bytes, exe_path,
  cpu_model, cpu_cores, mem_total_kb, mounts, in this order, followed by cgroup_v1
  exactly when the snapshot has a cgroup section; the cgroup object has the key
  memory_limit_bytes exactly when the memory limit is present and cpu_limit_cores
  exactly when the CPU limit is present, and holds no \<open>null\<close>; reading the document
  back gives the snapshot, field for field.
\<close>

theorem json_snapshot:
  assumes "encodable fl info"
  shows "\<exists>fields. marshal_SysInfo fl info = Inr (JObject fields)
    \<and> map fst fields = base_keys @ (case CgroupV1 info of None \<Rightarrow> [] | Some c \<Rightarrow> [''cgroup_v1''])
    \<and> (\<forall>c. CgroupV1 info = Some c \<longrightarrow>
          (\<exists>cg. map_of fields ''cgroup_v1'' = Some (JObject cg)
             \<and> map fst cg =
                 (case MemoryLimitBytes c of None \<Rightarrow> [] | Some m \<Rightarrow> [''memory_limit_bytes''])
                 @ (case CPULimitCores c of None \<Rightarrow> [] | Some x \<Rightarrow> [''cpu_limit_cores''])
             \<and> JNull \<notin> snd ` set cg))
    \<and> round_trip fl info = Inr info"
proof -
  define mj :: "'a json" where
    "mj = (if Mounts info = [] then JNull else JArray (map marshal_DiskInfo (Mounts info)))"
  define base :: "(string \<times> 'a json) list" where
    "base = [(''fd_count'', JInt (FDCount info)), (''vmrss_bytes'', JInt (VmRSS info)),
             (''exe_path'', JString (ExePath info)), (''cpu_model'', JString (CPUModel info)),
             (''cpu_cores'', JInt (CPUCores info)), (''mem_total_kb'', JInt (MemTotal info)),
             (''mounts'', mj)]"
  have v: "toValidUTF8 (ExePath info) = ExePath info" "toValidUTF8 (CPUModel info) = CPUModel info"
    and r: "int64_range (FDCount info)" "int64_range (VmRSS info)" "int64_range (CPUCores info)"
      "int64_range (MemTotal info)"
    using assms by (simp_all add: encodable_def ValidString_def)
  have m: "unmarshal_Mounts mj = Inr (Mounts info)"
    unfolding mj_def using assms by (intro unmarshal_Mounts_marshal) (simp add: encodable_def)
  have keys: "map fst base = base_keys"
    by (simp add: base_def base_keys_def)
  have nokey: "map_of base ''cgroup_v1'' = None"
    by (simp add: base_def)
  have rec_eq: "\<lparr>FDCount = FDCount info, VmRSS = VmRSS info, ExePath = ExePath info,
      CPUModel = CPUModel info, CPUCores = CPUCores info, MemTotal = MemTotal info,
      Mounts = Mounts info, CgroupV1 = CgroupV1 info\<rparr> = info"
    by simp
  show ?thesis
  proof (cases "CgroupV1 info")
    case None
    have ms: "marshal_SysInfo fl info = Inr (JObject (base @ []))"
      using None by (simp add: marshal_SysInfo_eq v base_def mj_def)
    have "unmarshal_SysInfo (JObject (base @ [])) = Inr info"
      unfolding base_def
      using unmarshal_SysInfo_fields [OF r(1) r(2) r(3) r(4) m, of "[]" None] None rec_eq
      by simp
    then show ?thesis
      using ms None keys by (simp add: round_trip_def)
  next
    case (Some c)
    from assms Some obtain j where j: "marshal_CgroupV1 fl c = Inr j"
      using marshal_CgroupV1_ok [where c = c and fl = fl] by (auto simp: encodable_def)
    from marshal_CgroupV1_keys [OF j] obtain cg where cg: "j = JObject cg"
      "map fst cg = (case MemoryLimitBytes c of None \<Rightarrow> [] | Some m \<Rightarrow> [''memory_limit_bytes''])
                     @ (case CPULimitCores c of None \<Rightarrow> [] | Some x \<Rightarrow> [''cpu_limit_cores''])"
      "JNull \<notin> snd ` set cg"
      by blast
    have u: "unmarshal_CgroupV1_ptr j = Inr (Some c)"
      using j by (rule unmarshal_CgroupV1_marshal)
    have ms: "marshal_SysInfo fl info = Inr (JObject (base @ [(''cgroup_v1'', j)]))"
      using Some j by (simp add: marshal_SysInfo_eq v base_def mj_def)
    have "unmarshal_SysInfo (JObject (base @ [(''cgroup_v1'', j)])) = Inr info"
      unfolding base_def
      using unmarshal_SysInfo_fields [OF r(1) r(2) r(3) r(4) m, of "[(''cgroup_v1'', j)]" "Some c"]
        u Some rec_eq
      by simp
    moreover have "map_of (base @ [(''cgroup_v1'', j)]) ''cgroup_v1'' = Some (JObject cg)"
      using nokey cg(1) by (simp add: map_add_def)
    ultimately show ?thesis
      using ms Some keys cg(2) cg(3) by (simp add: round_trip_def)
  qed
qed

theorem json_snapshot_witness:
  "round_trip decimal_ops full_info = Inr full_info
   \<and> round_trip decimal_ops bare_info = Inr bare_info
   \<and> (\<exists>fields. marshal_SysInfo decimal_ops bare_info = Inr (JObject fields)
         \<and> map fst fields = base_keys)
   \<and> (\<exists>fields. marshal_SysInfo decimal_ops status_info = Inr (JObject fields)
         \<and> map fst fields = base_keys @ [''cgroup_v1'']
         \<and> map_of fields ''cgroup_v1'' = Some (JObject []))"
proof -
  have b: "CgroupV1 bare_info = None"
    by (simp add: bare_info_def)
  have s: "CgroupV1 status_info = Some \<lparr>MemoryLimitBytes = None, CPULimitCores = None\<rparr>"
    by (simp add: status_info_def)
  from json_snapshot [OF encodable_examples(1)]
  have 1: "round_trip decimal_ops full_info = Inr full_info"
    by blast
  from json_snapshot [OF encodable_examples(2)] b
  have 2: "round_trip decimal_ops bare_info = Inr bare_info
    \<and> (\<exists>fields. marshal_SysInfo decimal_ops bare_info = Inr (JObject fields)
         \<and> map fst fields = base_keys)"
    by auto
  from json_snapshot [OF encodable_examples(3)] s
  have 3: "\<exists>fields. marshal_SysInfo decimal_ops status_info = Inr (JObject fields)
         \<and> map fst fields = base_keys @ [''cgroup_v1'']
         \<and> map_of fields ''cgroup_v1'' = Some (JObject [])"
    by auto
  from 1 2 3 show ?thesis by blast
qed

text \<open>
  C1 as it is stated fails: the path of the executable can hold a byte that is not
  UTF-8; the encoder replaces it by U+FFFD, and the snapshot read back differs in
  \<open>exe_path\<close>.
\<close>

theorem json_round_trip_counterexample:
  "collect decimal_ops bad_os = (status_errors, Some bad_info)
   \<and> ExePath bad_info = ''/tmp/'' @ [CHR 0xFF]
   \<and> round_trip decimal_ops bad_info
       = Inr (bad_info \<lparr>ExePath := ''/tmp/'' @ [CHR 0xEF, CHR 0xBF, CHR 0xBD]\<rparr>)
   \<and> round_trip decimal_ops bad_info \<noteq> Inr bad_info"
  by code_simp

end
